theory Spec2Isabelle
  imports Main
begin

unbundle bit_operations_syntax

section \<open>The messaging SDK as seen by the examples\<close>

text \<open>
  The examples call a vendor SDK (\<^verbatim>\<open>solclient/solClient.h\<close>) that is not part of the
  repository. The embedding keeps the SDK symbolic: a return code is a value of
  \<open>returnCode\<close>, a property-name or property-value macro of the SDK header is a constructor
  of \<open>sdk_macro\<close> named after the macro, and every call into the SDK, every \<^verbatim>\<open>printf\<close>
  and every \<^verbatim>\<open>solClient_log\<close> is an \<open>action\<close> appended to the trace a function returns.
  What an SDK call returns is chosen by the caller of the model (an environment argument).
\<close>

datatype returnCode =
    SOLCLIENT_OK | SOLCLIENT_WOULD_BLOCK | SOLCLIENT_IN_PROGRESS | SOLCLIENT_NOT_READY
  | SOLCLIENT_EOS | SOLCLIENT_NOT_FOUND | SOLCLIENT_NOEVENT | SOLCLIENT_INCOMPLETE
  | SOLCLIENT_ROLLBACK | SOLCLIENT_FAIL

datatype log_level =
    SOLCLIENT_LOG_EMERGENCY | SOLCLIENT_LOG_ALERT | SOLCLIENT_LOG_CRITICAL
  | SOLCLIENT_LOG_ERROR | SOLCLIENT_LOG_WARNING | SOLCLIENT_LOG_NOTICE
  | SOLCLIENT_LOG_INFO | SOLCLIENT_LOG_DEBUG

datatype sdk_macro =
    SOLCLIENT_SESSION_PROP_HOST
  | SOLCLIENT_SESSION_PROP_COMPRESSION_LEVEL
  | SOLCLIENT_SESSION_PROP_CONNECT_RETRIES
  | SOLCLIENT_SESSION_PROP_RECONNECT_RETRIES
  | SOLCLIENT_SESSION_PROP_REAPPLY_SUBSCRIPTIONS
  | SOLCLIENT_SESSION_PROP_GENERATE_SEND_TIMESTAMPS
  | SOLCLIENT_SESSION_PROP_GENERATE_SENDER_ID
  | SOLCLIENT_SESSION_PROP_GENERATE_SEQUENCE_NUMBER
  | SOLCLIENT_SESSION_PROP_VPN_NAME
  | SOLCLIENT_SESSION_PROP_SSL_VALIDATE_CERTIFICATE
  | SOLCLIENT_SESSION_PROP_USERNAME
  | SOLCLIENT_SESSION_PROP_PASSWORD
  | SOLCLIENT_SESSION_PROP_AUTHENTICATION_SCHEME
  | SOLCLIENT_SESSION_PROP_AUTHENTICATION_SCHEME_GSS_KRB
  | SOLCLIENT_SESSION_PROP_WEB_TRANSPORT_PROTOCOL_LIST
  | SOLCLIENT_PROP_ENABLE_VAL
  | SOLCLIENT_PROP_DISABLE_VAL
  | SOLCLIENT_ENDPOINT_PROP_ID
  | SOLCLIENT_ENDPOINT_PROP_QUEUE
  | SOLCLIENT_ENDPOINT_PROP_NAME
  | SOLCLIENT_ENDPOINT_PROP_PERMISSION
  | SOLCLIENT_ENDPOINT_PERM_DELETE
  | SOLCLIENT_ENDPOINT_PROP_RESPECTS_MSG_TTL
  | SOLCLIENT_FLOW_PROP_MAX_UNACKED_MESSAGES
  | SOLCLIENT_FLOW_PROP_BIND_BLOCKING
  | SOLCLIENT_FLOW_PROP_BIND_ENTITY_ID
  | SOLCLIENT_FLOW_PROP_BIND_ENTITY_QUEUE
  | SOLCLIENT_FLOW_PROP_BIND_ENTITY_DURABLE
  | SOLCLIENT_FLOW_PROP_BIND_NAME
  | SOLCLIENT_FLOW_PROP_ACKMODE
  | SOLCLIENT_FLOW_PROP_ACKMODE_CLIENT

text \<open>
  An entry of a NULL-terminated \<^verbatim>\<open>const char *props[]\<close> array: an SDK macro, or a
  C string (a literal of the source, or the content of a buffer the entry points to).
\<close>

datatype prop_str = Macro sdk_macro | Str string

datatype provision_flag =
    SOLCLIENT_PROVISION_FLAGS_WAITFORCONFIRM
  | SOLCLIENT_PROVISION_FLAGS_IGNORE_EXIST_ERRORS

text \<open>
  The arguments of a format string. The stringification functions of the SDK and the
  fields of \<^verbatim>\<open>solClient_getLastErrorInfo()\<close> stay symbolic.
\<close>

text \<open>
  The session events the callbacks name (each with the prefix
  \<^verbatim>\<open>SOLCLIENT_SESSION_EVENT_\<close> in the SDK header); \<open>OTHER_EVENT\<close> stands for every other
  value of the enumeration.
\<close>

datatype session_event =
    UP_NOTICE | ACKNOWLEDGEMENT | TE_UNSUBSCRIBE_OK | CAN_SEND | RECONNECTING_NOTICE
  | RECONNECTED_NOTICE | PROVISION_OK | SUBSCRIPTION_OK | DOWN_ERROR | CONNECT_FAILED_ERROR
  | REJECTED_MSG_ERROR | SUBSCRIPTION_ERROR | RX_MSG_TOO_BIG_ERROR | TE_UNSUBSCRIBE_ERROR
  | PROVISION_ERROR | OTHER_EVENT

datatype fmt_arg =
    AStr string
  | AInt int
  | AReturnCode returnCode
  | AReturnCodeToString returnCode
  | ALastError_subCodeToString
  | ALastError_responseCode
  | ALastError_errorStr
  | AVersion_version
  | AVersion_dateTime
  | AVersion_variant
  | ASession_eventToString session_event

datatype sdk_fn =
    solClient_initialize
  | solClient_cleanup
  | solClient_version_get
  | solClient_log_setFilterLevel
  | solClient_resetLastErrorInfo
  | solClient_generateUUIDString
  | solClient_context_create
  | solClient_session_create
  | solClient_session_connect
  | solClient_session_disconnect
  | solClient_session_isCapable
  | solClient_session_endpointProvision
  | solClient_session_endpointDeprovision
  | solClient_session_endpointTopicSubscribe
  | solClient_session_createFlow
  | solClient_session_sendMsg
  | solClient_session_sendSmf
  | solClient_flow_destroy
  | solClient_flow_stop
  | solClient_flow_start
  | solClient_flow_sendAck
  | solClient_flow_getDestination
  | solClient_msg_alloc
  | solClient_msg_free
  | solClient_msg_dump
  | solClient_msg_getMsgId
  | solClient_msg_getSmfPtr
  | solClient_msg_setDeliveryMode
  | solClient_msg_setDestination
  | solClient_msg_setBinaryAttachment
  | solClient_msg_setTimeToLive
  | solClient_msg_setDMQEligible
  | solClient_msg_setCorrelationTagPtr

text \<open>
  The arguments of an SDK call that the model keeps: a properties array, provisioning
  flags, a number (a message ID, a time to live, a level), a string, or a truth value.
\<close>

datatype delivery_mode =
    SOLCLIENT_DELIVERY_MODE_DIRECT
  | SOLCLIENT_DELIVERY_MODE_PERSISTENT
  | SOLCLIENT_DELIVERY_MODE_NONPERSISTENT

datatype sdk_arg =
    Props "prop_str list"
  | Mode delivery_mode
  | Flags "provision_flag list"
  | Num int
  | CStr string
  | Flag bool

datatype action =
    Printf string "fmt_arg list"
  | Log log_level string "fmt_arg list"
  | Sdk sdk_fn "sdk_arg list"
  | InitSigHandler
  | SleepInUs int
  | SleepInSec int

text \<open>
  What the SDK returns: \<open>env f k\<close> is the return code of the call of \<open>f\<close> at its
  \<open>k\<close>-th call site of the program (or in the \<open>k\<close>-th round of a loop).
\<close>

type_synonym env = "sdk_fn \<Rightarrow> nat \<Rightarrow> returnCode"

text \<open>
  A C \<^verbatim>\<open>int\<close> is kept as an integer in the range of 32 bits; where the source
  increments one, the model wraps the result around.
\<close>

definition int32 :: "int \<Rightarrow> int" where
  "int32 x = (x + 2147483648) mod 4294967296 - 2147483648"

text \<open>
  The properties array is read by the SDK as name/value pairs, in order.
\<close>

fun prop_pairs :: "'a list \<Rightarrow> ('a \<times> 'a) list" where
  "prop_pairs (k # v # rest) = (k, v) # prop_pairs rest"
| "prop_pairs _ = []"

definition prop_value :: "prop_str list \<Rightarrow> sdk_macro \<Rightarrow> prop_str option" where
  "prop_value props k = map_of (prop_pairs props) (Macro k)"

section \<open>common.c\<close>

text \<open>
  \<^verbatim>\<open>common.h\<close> is not among the sources: the constants it defines are the fields of
  \<open>common_h\<close>, an argument of every function that uses one of them. \<open>PARAM_MASK h p\<close> is
  the bit mask \<^verbatim>\<open>HOST_PARAM_MASK\<close>, \<^verbatim>\<open>USER_PARAM_MASK\<close>, ... of the parameter \<open>p\<close>,
  \<open>PARAM_STRING h p\<close> its usage line, and the \<open>sizeof_\<close> fields are the sizes of the
  character arrays of \<^verbatim>\<open>struct commonOptions\<close>.
\<close>

datatype param =
    HOST_PARAM | USER_PARAM | DEST_PARAM | PASS_PARAM | CACHE_PARAM | DURABLE | NUM_MSGS
  | MSG_RATE | WINDOW_SIZE | LOG_LEVEL | USE_GSS | ZIP_LEVEL | REPLAY_START

record common_h =
  COMMON_DMQ_NAME :: string
  COMMON_TESTQ :: string
  COMMON_MY_SAMPLE_TOPIC :: string
  PARAM_MASK :: "param \<Rightarrow> nat"
  PARAM_STRING :: "param \<Rightarrow> string"
  sizeof_username :: nat
  sizeof_password :: nat
  sizeof_vpn :: nat
  sizeof_targetHost :: nat
  sizeof_cacheName :: nat
  sizeof_replayStartLocation :: nat
  sizeof_destinationName :: nat

text \<open>
  The SDK header gives the numbers of the log levels, and the default filter level.
\<close>

record solClient_h =
  log_level_num :: "log_level \<Rightarrow> int"
  SOLCLIENT_LOG_DEFAULT_FILTER :: int

text \<open>
  The C library functions the option parser calls: \<^verbatim>\<open>atoi\<close>, \<^verbatim>\<open>strtol\<close> with base 0
  (the value, and the rest of the string at \<^verbatim>\<open>end_p\<close>) and \<^verbatim>\<open>strcasecmp\<close>.
\<close>

record libc =
  atoi :: "string \<Rightarrow> int"
  strtol0 :: "string \<Rightarrow> int \<times> string"
  strcasecmp :: "string \<Rightarrow> string \<Rightarrow> int"

subsection \<open>Character arrays\<close>

text \<open>
  A character array is the list of its bytes; its length is the size of the array. The
  C string it holds ends before the first NUL. A write outside the array is undefined
  behaviour in C: the model stops there with an error that names the array and the offset.
\<close>

type_synonym buffer = "char list"

definition NUL :: char where
  "NUL = CHR 0x00"

definition c_str :: "buffer \<Rightarrow> string" where
  "c_str buf = takeWhile (\<lambda>c. c \<noteq> NUL) buf"

definition nul_terminated :: "buffer \<Rightarrow> bool" where
  "nul_terminated buf = (NUL \<in> set buf)"

text \<open>\<^verbatim>\<open>buf[0]\<close> as a truth value.\<close>

definition first_char_set :: "buffer \<Rightarrow> bool" where
  "first_char_set buf = (case buf of [] \<Rightarrow> False | c # _ \<Rightarrow> c \<noteq> NUL)"

text \<open>
  \<^verbatim>\<open>strncpy (dst, src, n)\<close> with \<open>n\<close> the size of \<open>dst\<close>: the first \<open>n\<close> characters of
  \<open>src\<close>, padded with NULs when \<open>src\<close> is shorter (and not terminated when it is not).
\<close>

definition strncpy :: "string \<Rightarrow> nat \<Rightarrow> buffer" where
  "strncpy src n = take n (takeWhile (\<lambda>c. c \<noteq> NUL) src @ replicate n NUL)"

datatype out_array = OutUsername | OutVpn

datatype c_error = Write_outside_array out_array int

subsection \<open>common_parseUsernameAndVpn\<close>

text \<open>
  The state of the loop: the two output arrays, the array \<^verbatim>\<open>dest\<close> points into with
  its offset there, and \<^verbatim>\<open>remaining\<close>.
\<close>

record parse_state =
  outUsername :: buffer
  outVpn :: buffer
  dest_array :: out_array
  dest_off :: nat
  remaining :: nat

text \<open>\<^verbatim>\<open>*(dest + d) = c\<close> for the offset \<open>off\<close> of \<^verbatim>\<open>dest + d\<close> in its array.\<close>

definition store :: "parse_state \<Rightarrow> int \<Rightarrow> char \<Rightarrow> c_error + parse_state" where
  "store st off c =
     (case dest_array st of
        OutUsername \<Rightarrow>
          if 0 \<le> off \<and> off < int (length (outUsername st))
          then Inr (st\<lparr>outUsername := (outUsername st)[nat off := c]\<rparr>)
          else Inl (Write_outside_array OutUsername off)
      | OutVpn \<Rightarrow>
          if 0 \<le> off \<and> off < int (length (outVpn st))
          then Inr (st\<lparr>outVpn := (outVpn st)[nat off := c]\<rparr>)
          else Inl (Write_outside_array OutVpn off))"

fun parse_loop :: "nat \<Rightarrow> string \<Rightarrow> parse_state \<Rightarrow> c_error + parse_state" where
  "parse_loop vpnLen [] st = Inr st"
| "parse_loop vpnLen (c # cs) st =
     (if c = CHR ''@''
      then (case store st (int (dest_off st)) NUL of
              Inl e \<Rightarrow> Inl e
            | Inr st' \<Rightarrow>
                parse_loop vpnLen cs
                  (st'\<lparr>dest_array := OutVpn, dest_off := 0, remaining := vpnLen\<rparr>))
      else if remaining st \<noteq> 0
      then (case store st (int (dest_off st)) c of
              Inl e \<Rightarrow> Inl e
            | Inr st' \<Rightarrow>
                parse_loop vpnLen cs
                  (st'\<lparr>dest_off := dest_off st + 1, remaining := remaining st - 1\<rparr>))
      else (case store st (int (dest_off st) - 1) NUL of
              Inl e \<Rightarrow> Inl e
            | Inr st' \<Rightarrow> parse_loop vpnLen cs st'))"

text \<open>
  The result is the pair of the output arrays after the call. \<open>inName\<close> is read up to
  its first NUL.
\<close>

definition common_parseUsernameAndVpn ::
  "string \<Rightarrow> buffer \<Rightarrow> nat \<Rightarrow> buffer \<Rightarrow> nat \<Rightarrow> c_error + (buffer \<times> buffer)" where
  "common_parseUsernameAndVpn inName outUsername0 usernameLen outVpn0 vpnLen =
     (case parse_loop vpnLen (takeWhile (\<lambda>c. c \<noteq> NUL) inName)
             \<lparr>outUsername = outUsername0, outVpn = outVpn0, dest_array = OutUsername,
              dest_off = 0, remaining = usernameLen\<rparr> of
        Inl e \<Rightarrow> Inl e
      | Inr st \<Rightarrow>
          (case store st (int (dest_off st)) NUL of
             Inl e \<Rightarrow> Inl e
           | Inr st' \<Rightarrow> Inr (outUsername st', outVpn st')))"

subsection \<open>struct commonOptions\<close>

record commonOptions =
  username :: buffer
  password :: buffer
  vpn :: buffer
  targetHost :: buffer
  cacheName :: buffer
  replayStartLocation :: buffer
  usingTopic :: bool
  usingAD :: bool
  destinationName :: buffer
  numMsgsToSend :: int
  msgRate :: int
  gdWindow :: int
  logLevel :: int
  usingDurable :: bool
  enableCompression :: bool
  useGSS :: bool
  requiredFields :: nat
  optionalFields :: nat

subsection \<open>common_handleError\<close>

definition common_handleError :: "returnCode \<Rightarrow> string \<Rightarrow> action list" where
  "common_handleError rc errorStr =
     [Log SOLCLIENT_LOG_ERROR
        ''%s - ReturnCode=\"%s\", SubCode=\"%s\", ResponseCode=%d, Info=\"%s\"''
        [AStr errorStr, AReturnCodeToString rc, ALastError_subCodeToString,
         ALastError_responseCode, ALastError_errorStr],
      Sdk solClient_resetLastErrorInfo []]"

subsection \<open>Straight-line code with jumps to the cleanup labels\<close>

text \<open>
  The \<^verbatim>\<open>main\<close> functions repeat one pattern:
  \<^verbatim>\<open>if ( ( rc = f ( ... ) ) != SOLCLIENT_OK ) { report ( rc ); goto label; }\<close>
  \<open>Call f k args report label\<close> is one such statement (\<open>k\<close> selects the return code in
  the environment); \<open>Check failed report label\<close> is a test of something else than the
  return code of an SDK call, with the same report and jump when \<open>failed\<close> holds; \<open>Do\<close> is
  a run of actions without a test. \<open>run\<close> executes a sequence of statements up to the
  first jump: it gives the trace and the label jumped to, or \<open>None\<close> when the end of the
  sequence is reached.
\<close>

datatype 'l stmt =
    Call sdk_fn nat "sdk_arg list" "returnCode \<Rightarrow> action list" 'l
  | Check bool "action list" 'l
  | Do "action list"

fun run :: "env \<Rightarrow> 'l stmt list \<Rightarrow> action list \<times> 'l option" where
  "run env [] = ([], None)"
| "run env (Call f k args report l # cs) =
     (if env f k \<noteq> SOLCLIENT_OK then (Sdk f args # report (env f k), Some l)
      else (case run env cs of (as, r) \<Rightarrow> (Sdk f args # as, r)))"
| "run env (Check failed report l # cs) =
     (if failed then (report, Some l)
      else run env cs)"
| "run env (Do acts # cs) = (case run env cs of (as, r) \<Rightarrow> (acts @ as, r))"

text \<open>The usual report: \<^verbatim>\<open>common_handleError ( rc, errorStr )\<close>.\<close>

definition handle :: "string \<Rightarrow> returnCode \<Rightarrow> action list" where
  "handle errorStr rc = common_handleError rc errorStr"

text \<open>
  A call whose failure is reported and not otherwise acted on:
  \<^verbatim>\<open>if ( ( rc = f ( ... ) ) != SOLCLIENT_OK ) { common_handleError ( rc, errorStr ); }\<close>
\<close>

definition call_and_report :: "env \<Rightarrow> sdk_fn \<Rightarrow> nat \<Rightarrow> sdk_arg list \<Rightarrow> string \<Rightarrow> action list" where
  "call_and_report env f k args errorStr =
     Sdk f args # (if env f k \<noteq> SOLCLIENT_OK then common_handleError (env f k) errorStr else [])"

subsection \<open>common_printCCSMPversion\<close>

definition common_printCCSMPversion :: "env \<Rightarrow> action list" where
  "common_printCCSMPversion env =
     [Sdk solClient_version_get [],
      if env solClient_version_get 0 \<noteq> SOLCLIENT_OK
      then Printf ''Unknown library version, solClient_version_get returns FAIL\<newline>\<newline>'' []
      else Printf (''CCSMP Version %s (%s)'' @ [CHR 0x09] @ ''Variant: %s\<newline>\<newline>'')
             [AVersion_version, AVersion_dateTime, AVersion_variant]]"

subsection \<open>common_eventCallback\<close>

definition common_eventCallback :: "session_event \<Rightarrow> action list" where
  "common_eventCallback sessionEvent =
     (if sessionEvent \<in> {UP_NOTICE, ACKNOWLEDGEMENT, TE_UNSUBSCRIBE_OK, CAN_SEND,
                          RECONNECTING_NOTICE, RECONNECTED_NOTICE, PROVISION_OK,
                          SUBSCRIPTION_OK}
      then [Log SOLCLIENT_LOG_INFO ''common_eventCallback() called - %s\<newline>''
              [ASession_eventToString sessionEvent]]
      else if sessionEvent \<in> {DOWN_ERROR, CONNECT_FAILED_ERROR, REJECTED_MSG_ERROR,
                               SUBSCRIPTION_ERROR, RX_MSG_TOO_BIG_ERROR, TE_UNSUBSCRIBE_ERROR,
                               PROVISION_ERROR}
      then [Printf (''common_eventCallback() called - %s; subCode %s, responseCode %d, ''
                    @ ''reason %s\<newline>'')
              [ASession_eventToString sessionEvent, ALastError_subCodeToString,
               ALastError_responseCode, ALastError_errorStr]]
      else [Printf (''common_eventCallback() called - %s.  Unrecognized or deprecated ''
                    @ ''event.\<newline>'')
              [ASession_eventToString sessionEvent]])"

subsection \<open>common_createAndConnectSession\<close>

definition sessionProps :: "commonOptions \<Rightarrow> prop_str list" where
  "sessionProps commonOpts =
     (if first_char_set (targetHost commonOpts)
      then [Macro SOLCLIENT_SESSION_PROP_HOST, Str (c_str (targetHost commonOpts))] else [])
     @ [Macro SOLCLIENT_SESSION_PROP_COMPRESSION_LEVEL,
        (if enableCompression commonOpts then Str ''9'' else Str ''0'')]
     @ [Macro SOLCLIENT_SESSION_PROP_CONNECT_RETRIES, Str ''3'']
     @ [Macro SOLCLIENT_SESSION_PROP_RECONNECT_RETRIES, Str ''3'']
     @ [Macro SOLCLIENT_SESSION_PROP_REAPPLY_SUBSCRIPTIONS, Macro SOLCLIENT_PROP_ENABLE_VAL]
     @ [Macro SOLCLIENT_SESSION_PROP_GENERATE_SEND_TIMESTAMPS, Macro SOLCLIENT_PROP_ENABLE_VAL]
     @ [Macro SOLCLIENT_SESSION_PROP_GENERATE_SENDER_ID, Macro SOLCLIENT_PROP_ENABLE_VAL]
     @ [Macro SOLCLIENT_SESSION_PROP_GENERATE_SEQUENCE_NUMBER, Macro SOLCLIENT_PROP_ENABLE_VAL]
     @ (if first_char_set (vpn commonOpts)
        then [Macro SOLCLIENT_SESSION_PROP_VPN_NAME, Str (c_str (vpn commonOpts))] else [])
     @ [Macro SOLCLIENT_SESSION_PROP_SSL_VALIDATE_CERTIFICATE, Macro SOLCLIENT_PROP_DISABLE_VAL]
     @ [Macro SOLCLIENT_SESSION_PROP_USERNAME, Str (c_str (username commonOpts))]
     @ [Macro SOLCLIENT_SESSION_PROP_PASSWORD, Str (c_str (password commonOpts))]
     @ (if useGSS commonOpts
        then [Macro SOLCLIENT_SESSION_PROP_AUTHENTICATION_SCHEME,
              Macro SOLCLIENT_SESSION_PROP_AUTHENTICATION_SCHEME_GSS_KRB] else [])"

text \<open>
  \<open>rc_create\<close> and \<open>rc_connect\<close> are what \<^verbatim>\<open>solClient_session_create\<close> and
  \<^verbatim>\<open>solClient_session_connect\<close> return.
\<close>

definition common_createAndConnectSession ::
  "returnCode \<Rightarrow> returnCode \<Rightarrow> commonOptions \<Rightarrow> returnCode \<times> action list" where
  "common_createAndConnectSession rc_create rc_connect commonOpts =
     (if rc_create \<noteq> SOLCLIENT_OK
      then (rc_create,
            Sdk solClient_session_create [Props (sessionProps commonOpts)]
            # common_handleError rc_create ''solClient_session_create()'')
      else if rc_connect \<noteq> SOLCLIENT_OK
      then (rc_connect,
            [Sdk solClient_session_create [Props (sessionProps commonOpts)], Sdk solClient_session_connect []]
            @ common_handleError rc_connect ''solClient_session_connect()'')
      else (SOLCLIENT_OK,
            [Sdk solClient_session_create [Props (sessionProps commonOpts)], Sdk solClient_session_connect []]))"

subsection \<open>common_createQueue\<close>

definition createQueue_props :: "common_h \<Rightarrow> string \<Rightarrow> prop_str list" where
  "createQueue_props h queueName_p =
     [Macro SOLCLIENT_ENDPOINT_PROP_ID, Macro SOLCLIENT_ENDPOINT_PROP_QUEUE,
      Macro SOLCLIENT_ENDPOINT_PROP_NAME, Str queueName_p,
      Macro SOLCLIENT_ENDPOINT_PROP_PERMISSION, Macro SOLCLIENT_ENDPOINT_PERM_DELETE]
     @ (if queueName_p \<noteq> COMMON_DMQ_NAME h
        then [Macro SOLCLIENT_ENDPOINT_PROP_RESPECTS_MSG_TTL, Macro SOLCLIENT_PROP_ENABLE_VAL]
        else [])"

text \<open>\<open>rc_provision\<close> is what \<^verbatim>\<open>solClient_session_endpointProvision\<close> returns.\<close>

definition common_createQueue ::
  "common_h \<Rightarrow> returnCode \<Rightarrow> string \<Rightarrow> returnCode \<times> action list" where
  "common_createQueue h rc_provision queueName_p =
     (let call = Sdk solClient_session_endpointProvision
                   [Props (createQueue_props h queueName_p),
                    Flags [SOLCLIENT_PROVISION_FLAGS_WAITFORCONFIRM,
                           SOLCLIENT_PROVISION_FLAGS_IGNORE_EXIST_ERRORS]]
      in if rc_provision = SOLCLIENT_FAIL
         then (rc_provision,
               call # common_handleError rc_provision ''solClient_session_endpointProvision()'')
         else (SOLCLIENT_OK, [call]))"

subsection \<open>common_deleteQueue\<close>

text \<open>\<open>rc_deprovision\<close> is what \<^verbatim>\<open>solClient_session_endpointDeprovision\<close> returns.\<close>

definition common_deleteQueue :: "returnCode \<Rightarrow> string \<Rightarrow> returnCode \<times> action list" where
  "common_deleteQueue rc_deprovision queueName_p =
     (let call = Sdk solClient_session_endpointDeprovision
                   [Props [Macro SOLCLIENT_ENDPOINT_PROP_ID, Macro SOLCLIENT_ENDPOINT_PROP_QUEUE,
                           Macro SOLCLIENT_ENDPOINT_PROP_NAME, Str queueName_p],
                    Flags [SOLCLIENT_PROVISION_FLAGS_WAITFORCONFIRM,
                           SOLCLIENT_PROVISION_FLAGS_IGNORE_EXIST_ERRORS]]
      in if rc_deprovision = SOLCLIENT_FAIL
         then (rc_deprovision,
               call # common_handleError rc_deprovision
                        ''solClient_session_endpointDeprovision()'')
         else (SOLCLIENT_OK, [call]))"

subsection \<open>common_initCommandOptions\<close>

text \<open>
  The caller's structure is on the stack and not initialised: \<open>commonOpt\<close> is its content
  before the call. Only the first character of each array is written.
\<close>

definition common_initCommandOptions ::
  "solClient_h \<Rightarrow> commonOptions \<Rightarrow> nat \<Rightarrow> nat \<Rightarrow> commonOptions" where
  "common_initCommandOptions sdk commonOpt requiredParams optionals =
     commonOpt
       \<lparr>username := (username commonOpt)[0 := NUL],
        password := (password commonOpt)[0 := NUL],
        vpn := (vpn commonOpt)[0 := NUL],
        targetHost := (targetHost commonOpt)[0 := NUL],
        cacheName := (cacheName commonOpt)[0 := NUL],
        replayStartLocation := (replayStartLocation commonOpt)[0 := NUL],
        usingTopic := True,
        usingAD := False,
        destinationName := (destinationName commonOpt)[0 := NUL],
        numMsgsToSend := 1,
        msgRate := 1,
        gdWindow := 0,
        logLevel := SOLCLIENT_LOG_DEFAULT_FILTER sdk,
        usingDurable := False,
        enableCompression := False,
        useGSS := False,
        requiredFields := requiredParams,
        optionalFields := optionals\<rparr>"

subsection \<open>common_parseCommandOptions\<close>

text \<open>
  \<^verbatim>\<open>getopt_long\<close> belongs to the C library: the model takes the list of what its
  successive calls return before \<open>-1\<close>, each the option character \<open>c\<close> with \<^verbatim>\<open>optarg\<close>.
  The log level is kept as the number \<^verbatim>\<open>strtol\<close> returns.
\<close>

definition parse_log_level ::
  "solClient_h \<Rightarrow> libc \<Rightarrow> string \<Rightarrow> int \<times> commonOptions \<Rightarrow> int \<times> commonOptions" where
  "parse_log_level sdk lc optarg s =
     (case s of (rc, opt) \<Rightarrow>
        (case strtol0 lc optarg of (v, end_p) \<Rightarrow>
           if v > log_level_num sdk SOLCLIENT_LOG_DEBUG \<or> end_p \<noteq> []
           then (if strcasecmp lc optarg ''debug'' = 0
                 then (rc, opt\<lparr>logLevel := log_level_num sdk SOLCLIENT_LOG_DEBUG\<rparr>)
                 else if strcasecmp lc optarg ''info'' = 0
                 then (rc, opt\<lparr>logLevel := log_level_num sdk SOLCLIENT_LOG_INFO\<rparr>)
                 else if strcasecmp lc optarg ''notice'' = 0
                 then (rc, opt\<lparr>logLevel := log_level_num sdk SOLCLIENT_LOG_NOTICE\<rparr>)
                 else if strcasecmp lc optarg ''warn'' = 0
                 then (rc, opt\<lparr>logLevel := log_level_num sdk SOLCLIENT_LOG_WARNING\<rparr>)
                 else if strcasecmp lc optarg ''error'' = 0
                 then (rc, opt\<lparr>logLevel := log_level_num sdk SOLCLIENT_LOG_ERROR\<rparr>)
                 else if strcasecmp lc optarg ''critical'' = 0
                 then (rc, opt\<lparr>logLevel := log_level_num sdk SOLCLIENT_LOG_CRITICAL\<rparr>)
                 else (0, opt\<lparr>logLevel := v\<rparr>))
           else (rc, opt\<lparr>logLevel := v\<rparr>)))"

definition parse_option ::
  "common_h \<Rightarrow> solClient_h \<Rightarrow> libc \<Rightarrow> char \<Rightarrow> string \<Rightarrow> int \<times> commonOptions
     \<Rightarrow> c_error + (int \<times> commonOptions)" where
  "parse_option h sdk lc c optarg s =
     (case s of (rc, opt) \<Rightarrow>
        if c = CHR ''a'' then Inr (rc, opt\<lparr>cacheName := strncpy optarg (sizeof_cacheName h)\<rparr>)
        else if c = CHR ''c''
        then Inr (rc, opt\<lparr>targetHost := strncpy optarg (sizeof_targetHost h)\<rparr>)
        else if c = CHR ''d'' then Inr (rc, opt\<lparr>usingDurable := True\<rparr>)
        else if c = CHR ''g'' then Inr (rc, opt\<lparr>useGSS := True\<rparr>)
        else if c = CHR ''z'' then Inr (rc, opt\<lparr>enableCompression := True\<rparr>)
        else if c = CHR ''R''
        then Inr (rc, opt\<lparr>replayStartLocation :=
                           strncpy optarg (sizeof_replayStartLocation h)\<rparr>)
        else if c = CHR ''l'' then Inr (parse_log_level sdk lc optarg (rc, opt))
        else if c = CHR ''n''
        then Inr (if atoi lc optarg \<le> 0 then 0 else rc,
                  opt\<lparr>numMsgsToSend := atoi lc optarg\<rparr>)
        else if c = CHR ''r''
        then Inr (if atoi lc optarg \<le> 0 then 0 else rc, opt\<lparr>msgRate := atoi lc optarg\<rparr>)
        else if c = CHR ''t''
        then Inr (rc, opt\<lparr>destinationName := strncpy optarg (sizeof_destinationName h)\<rparr>)
        else if c = CHR ''u''
        then (case common_parseUsernameAndVpn optarg (username opt) (sizeof_username h)
                     (vpn opt) (sizeof_vpn h) of
                Inl e \<Rightarrow> Inl e
              | Inr (u, v) \<Rightarrow> Inr (rc, opt\<lparr>username := u, vpn := v\<rparr>))
        else if c = CHR ''p''
        then Inr (rc, opt\<lparr>password := strncpy optarg (sizeof_password h)\<rparr>)
        else if c = CHR ''w''
        then Inr (if atoi lc optarg \<le> 0 then 0 else rc, opt\<lparr>gdWindow := atoi lc optarg\<rparr>)
        else Inr (0, opt))"

fun parse_options_loop ::
  "common_h \<Rightarrow> solClient_h \<Rightarrow> libc \<Rightarrow> (char \<times> string) list \<Rightarrow> int \<times> commonOptions
     \<Rightarrow> c_error + (int \<times> commonOptions)" where
  "parse_options_loop h sdk lc [] s = Inr s"
| "parse_options_loop h sdk lc ((c, optarg) # rest) s =
     (case parse_option h sdk lc c optarg s of
        Inl e \<Rightarrow> Inl e
      | Inr s' \<Rightarrow> parse_options_loop h sdk lc rest s')"

text \<open>The five checks for a missing required parameter, each with its message.\<close>

definition required_set :: "common_h \<Rightarrow> commonOptions \<Rightarrow> param \<Rightarrow> bool" where
  "required_set h opt p = (requiredFields opt AND PARAM_MASK h p \<noteq> 0)"

definition missing_required :: "common_h \<Rightarrow> commonOptions \<Rightarrow> string list" where
  "missing_required h opt =
     (if required_set h opt HOST_PARAM \<and> \<not> first_char_set (targetHost opt)
      then [''Missing required parameter '--cip'\<newline>''] else [])
     @ (if required_set h opt USER_PARAM \<and> \<not> first_char_set (username opt) \<and> \<not> useGSS opt
        then [''Missing required parameter '--cu'\<newline>''] else [])
     @ (if required_set h opt DEST_PARAM \<and> \<not> first_char_set (destinationName opt)
        then [''Missing required parameter '--topic'\<newline>''] else [])
     @ (if required_set h opt PASS_PARAM \<and> \<not> first_char_set (password opt)
        then [''Missing required parameter '--cp'\<newline>''] else [])
     @ (if required_set h opt CACHE_PARAM \<and> \<not> first_char_set (cacheName opt)
        then [''Missing required parameter '--cache'\<newline>''] else [])"

definition usage_string :: "common_h \<Rightarrow> nat \<Rightarrow> param \<Rightarrow> fmt_arg" where
  "usage_string h flds p = AStr (if flds AND PARAM_MASK h p \<noteq> 0 then PARAM_STRING h p else [])"

definition print_usage :: "common_h \<Rightarrow> string \<Rightarrow> commonOptions \<Rightarrow> string option \<Rightarrow> action list" where
  "print_usage h argv0 opt positionalDesc =
     [Printf (if positionalDesc = None
              then ''\<newline>Usage: %s PARAMETERS [OPTIONS]\<newline>\<newline>''
              else ''\<newline>Usage: %s PARAMETERS [OPTIONS] [ARGUMENTS]\<newline>\<newline>'')
        [AStr argv0],
      Printf (''Where PARAMETERS are:\<newline>%s%s%s%s%s''
              @ ''Where OPTIONS are:\<newline>%s%s%s%s%s%s%s%s%s%s%s%s\<newline>'')
        (map (usage_string h (requiredFields opt))
           [HOST_PARAM, USER_PARAM, DEST_PARAM, PASS_PARAM, CACHE_PARAM]
         @ map (usage_string h (optionalFields opt))
             [HOST_PARAM, USER_PARAM, DEST_PARAM, PASS_PARAM, CACHE_PARAM, DURABLE, NUM_MSGS,
              MSG_RATE, WINDOW_SIZE, LOG_LEVEL, USE_GSS, ZIP_LEVEL, REPLAY_START])]
     @ (case positionalDesc of
          None \<Rightarrow> []
        | Some d \<Rightarrow> [Printf ''Where ARGUMENTS are:\<newline>%s'' [AStr d]])"

text \<open>
  The result: the return value \<open>rc\<close>, the options structure and what was printed.
  \<open>argv0\<close> is the program name and \<open>opts\<close> the results of \<^verbatim>\<open>getopt_long\<close>.
\<close>

definition common_parseCommandOptions ::
  "common_h \<Rightarrow> solClient_h \<Rightarrow> libc \<Rightarrow> string \<Rightarrow> (char \<times> string) list \<Rightarrow> commonOptions
     \<Rightarrow> string option \<Rightarrow> c_error + (int \<times> commonOptions \<times> action list)" where
  "common_parseCommandOptions h sdk lc argv0 opts commonOpt positionalDesc =
     (case parse_options_loop h sdk lc opts (1, commonOpt) of
        Inl e \<Rightarrow> Inl e
      | Inr (rc, opt) \<Rightarrow>
          (let missing = missing_required h opt;
               rc' = (if missing = [] then rc else 0)
           in Inr (rc', opt,
                   map (\<lambda>m. Printf m []) missing
                   @ (if rc' = 0 then print_usage h argv0 opt positionalDesc else []))))"

section \<open>flowControlQueue.c\<close>

subsection \<open>The globals and flowMsgCallbackFunc\<close>

record fcq_globals =
  flow_receiving :: int
  unackedMsgId :: int

definition fcq_initial :: fcq_globals where
  "fcq_initial = \<lparr>flow_receiving = 1, unackedMsgId = 0\<rparr>"

text \<open>
  One delivered message, as the callback sees it: what the two calls of
  \<^verbatim>\<open>solClient_msg_getMsgId\<close>, the call of \<^verbatim>\<open>solClient_msg_dump\<close> and the call of
  \<^verbatim>\<open>solClient_flow_sendAck\<close> return, and the message ID.
\<close>

datatype delivery =
  Delivery (rc_getMsgId_first: returnCode) (rc_msg_dump: returnCode) (rc_getMsgId: returnCode)
    (msgId: int) (rc_sendAck: returnCode)

definition flowMsgCallbackFunc :: "delivery \<Rightarrow> fcq_globals \<Rightarrow> fcq_globals \<times> action list" where
  "flowMsgCallbackFunc d g =
     (let received =
            [Sdk solClient_msg_getMsgId [],
             if rc_getMsgId_first d = SOLCLIENT_OK
             then Printf ''Received message on flow. (Message ID: %lld).\<newline>'' [AInt (msgId d)]
             else Printf ''Received message on flow.\<newline>'' [],
             Sdk solClient_msg_dump []]
      in if rc_msg_dump d \<noteq> SOLCLIENT_OK
         then (g, received @ common_handleError (rc_msg_dump d) ''solClient_msg_dump()'')
         else if rc_getMsgId d = SOLCLIENT_OK
         then (if flow_receiving g \<noteq> 0
               then (g, received
                        @ [Sdk solClient_msg_getMsgId [],
                           Printf ''Acknowledging message: %lld.\<newline>'' [AInt (msgId d)],
                           Sdk solClient_flow_sendAck [Num (msgId d)]]
                        @ (if rc_sendAck d \<noteq> SOLCLIENT_OK
                           then common_handleError (rc_sendAck d) ''solClient_flow_sendAck()''
                           else []))
               else (g\<lparr>unackedMsgId := msgId d\<rparr>,
                     received
                     @ [Sdk solClient_msg_getMsgId []]
                     @ (if unackedMsgId g \<noteq> 0
                        then [Printf ''Received msgId %lld, when unacked msgId %lld already exists''
                                [AInt (msgId d), AInt (unackedMsgId g)]]
                        else [])))
         else (g, received @ [Sdk solClient_msg_getMsgId []]
                  @ common_handleError (rc_getMsgId d) ''solClient_msg_getMsgId()''))"

fun deliver_all :: "delivery list \<Rightarrow> fcq_globals \<Rightarrow> fcq_globals \<times> action list" where
  "deliver_all [] g = (g, [])"
| "deliver_all (d # ds) g =
     (case flowMsgCallbackFunc d g of
        (g', out) \<Rightarrow> (case deliver_all ds g' of (g'', out') \<Rightarrow> (g'', out @ out')))"

subsection \<open>main: the Flow properties\<close>

definition flowProps :: "bool \<Rightarrow> string \<Rightarrow> prop_str list" where
  "flowProps durable queueName =
     [Macro SOLCLIENT_FLOW_PROP_MAX_UNACKED_MESSAGES, Str ''1'',
      Macro SOLCLIENT_FLOW_PROP_BIND_BLOCKING, Macro SOLCLIENT_PROP_ENABLE_VAL,
      Macro SOLCLIENT_FLOW_PROP_BIND_ENTITY_ID, Macro SOLCLIENT_FLOW_PROP_BIND_ENTITY_QUEUE,
      Macro SOLCLIENT_FLOW_PROP_BIND_ENTITY_DURABLE,
      (if durable then Macro SOLCLIENT_PROP_ENABLE_VAL else Macro SOLCLIENT_PROP_DISABLE_VAL),
      Macro SOLCLIENT_FLOW_PROP_BIND_NAME, Str queueName,
      Macro SOLCLIENT_FLOW_PROP_ACKMODE, Macro SOLCLIENT_FLOW_PROP_ACKMODE_CLIENT]"

subsection \<open>main: the end of a round of the publish loop\<close>

text \<open>
  \<^verbatim>\<open>publishCount++\<close> and the block under \<^verbatim>\<open>if ( ( publishCount % 10 ) == 0 )\<close>.
  The remainder of C and \<open>mod\<close> agree on whether it is 0. \<open>rc_ack\<close> is what
  \<^verbatim>\<open>solClient_flow_sendAck\<close> returns here.
\<close>

definition count_and_toggle ::
  "returnCode \<Rightarrow> int \<Rightarrow> fcq_globals \<Rightarrow> int \<times> fcq_globals \<times> action list" where
  "count_and_toggle rc_ack publishCount g =
     (let n = int32 (publishCount + 1)
      in if n mod 10 = 0
         then (if flow_receiving g \<noteq> 0
               then (n, g\<lparr>flow_receiving := 0\<rparr>, [])
               else (n, g\<lparr>unackedMsgId := 0, flow_receiving := 1\<rparr>,
                     if unackedMsgId g \<noteq> 0
                     then Sdk solClient_flow_sendAck [Num (unackedMsgId g)]
                          # (if rc_ack \<noteq> SOLCLIENT_OK
                             then common_handleError rc_ack ''solClient_flow_sendAck()''
                             else [])
                     else []))
         else (n, g, []))"

subsection \<open>The example as a sequence of events\<close>


record fcq_state =
  globals :: fcq_globals
  publishCount :: int
  printed :: "action list"









subsection \<open>main\<close>

datatype label = L_cleanupFlow | L_sessionConnected | L_cleanup | L_notInitialized

text \<open>
  The SDK calls of round \<open>i\<close> of the publish loop, up to \<^verbatim>\<open>solClient_msg_free\<close>.
\<close>

definition fcq_round :: "bool \<Rightarrow> nat \<Rightarrow> label stmt list" where
  "fcq_round durable i =
     [Call solClient_msg_alloc i [] (handle ''solClient_msg_alloc()'') L_cleanupFlow,
      Call solClient_msg_setDeliveryMode i [Mode SOLCLIENT_DELIVERY_MODE_PERSISTENT]
        (handle ''solClient_msg_setDeliveryMode()'') L_cleanupFlow,
      Call solClient_msg_setBinaryAttachment i []
        (handle ''solClient_msg_setBinaryAttachmentPtr()'') L_cleanupFlow]
     @ (if durable then []
        else [Call solClient_flow_getDestination i []
                (handle ''solClient_flow_getDestination()'') L_sessionConnected])
     @ [Call solClient_msg_setDestination i [] (handle ''solClient_msg_setDestination()'')
          L_cleanupFlow,
        Call solClient_session_sendMsg i [] (handle ''solClient_session_send'') L_cleanupFlow,
        Call solClient_msg_free i [] (handle ''solClient_msg_free()'') L_cleanupFlow]"

text \<open>
  The publish loop \<^verbatim>\<open>while ( !gotCtlC )\<close>. \<open>gotCtlC i\<close> is the flag as read before round
  \<open>i\<close>, and \<open>deliveries i\<close> are the messages the callback handles between the end of round
  \<open>i - 1\<close> and the end of round \<open>i\<close>. The result is the label where the cleanup starts
  and the trace; \<open>None\<close> when the loop runs for ever.
\<close>

partial_function (option) publish_loop ::
  "env \<Rightarrow> (nat \<Rightarrow> bool) \<Rightarrow> (nat \<Rightarrow> delivery list) \<Rightarrow> bool \<Rightarrow> nat \<Rightarrow> int \<Rightarrow> fcq_globals
     \<Rightarrow> action list \<Rightarrow> (label \<times> action list) option" where
  "publish_loop env gotCtlC deliveries durable i publish_count g acc =
     (if gotCtlC i
      then Some (L_cleanupFlow, acc @ [Printf ''Got Ctrl-C, cleaning up\<newline>'' []])
      else (case run env (fcq_round durable i) of
              (as, Some l) \<Rightarrow> Some (l, acc @ as)
            | (as, None) \<Rightarrow>
                (case deliver_all (deliveries i) g of
                   (g1, out1) \<Rightarrow>
                     (case count_and_toggle (env solClient_flow_sendAck i) publish_count g1 of
                        (n, g2, out2) \<Rightarrow>
                          publish_loop env gotCtlC deliveries durable (Suc i) n g2
                            (acc @ as @ out1 @ out2 @ [SleepInUs 500000])))))"

declare publish_loop.simps [code]

definition fcq_cleanup :: "env \<Rightarrow> label \<Rightarrow> action list" where
  "fcq_cleanup env l =
     (if l = L_cleanupFlow
      then call_and_report env solClient_flow_destroy 0 [] ''solClient_flow_destroy()'' else [])
     @ (if l = L_cleanupFlow \<or> l = L_sessionConnected
        then call_and_report env solClient_session_disconnect 0 []
               ''solClient_session_disconnect()''
        else [])
     @ (if l \<noteq> L_notInitialized
        then call_and_report env solClient_cleanup 0 [] ''solClient_cleanup()'' else [])"

text \<open>
  What \<^verbatim>\<open>main\<close> does after the options are parsed, up to the publish loop. \<open>uuid\<close> is
  the string \<^verbatim>\<open>solClient_generateUUIDString\<close> writes.
\<close>

definition fcq_setup :: "common_h \<Rightarrow> env \<Rightarrow> string \<Rightarrow> commonOptions \<Rightarrow> label stmt list" where
  "fcq_setup h env uuid opt =
     (let session = common_createAndConnectSession (env solClient_session_create 0)
                      (env solClient_session_connect 0) opt;
          queueName = (if usingDurable opt then COMMON_TESTQ h else uuid)
      in [Call solClient_initialize 0 [] (handle ''solClient_initialize()'') L_notInitialized,
          Do (common_printCCSMPversion env
              @ [Sdk solClient_log_setFilterLevel [Num (logLevel opt)],
                 Log SOLCLIENT_LOG_INFO ''Creating solClient context'' []]),
          Call solClient_context_create 0 [] (handle ''solClient_context_create()'') L_cleanup,
          Do (Log SOLCLIENT_LOG_INFO ''Creating solClient sessions.'' [] # snd session),
          Check (fst session \<noteq> SOLCLIENT_OK)
            (handle ''common_createAndConnectSession()'' (fst session)) L_cleanup]
         @ (if usingDurable opt then []
            else [Call solClient_generateUUIDString 0 []
                    (\<lambda>rc. [Log SOLCLIENT_LOG_INFO
                              (''solClient_generateUUIDString() did not return SOLCLIENT_OK ''
                               @ ''after session create. rc = %d '')
                              [AReturnCode rc]])
                    L_sessionConnected])
         @ [Call solClient_session_createFlow 0 [Props (flowProps (usingDurable opt) queueName)]
              (\<lambda>rc. [Log SOLCLIENT_LOG_INFO
                        (''solClient_session_createFlow() did not return SOLCLIENT_OK ''
                         @ ''after session create. rc = %d '')
                        [AReturnCode rc]])
              L_sessionConnected,
            Do [Printf ''Publishing messages to queue %s, Ctrl-C to stop.....\<newline>''
                  [AStr queueName]]])"

definition fcq_body ::
  "common_h \<Rightarrow> env \<Rightarrow> string \<Rightarrow> (nat \<Rightarrow> bool) \<Rightarrow> (nat \<Rightarrow> delivery list) \<Rightarrow> commonOptions
     \<Rightarrow> action list option" where
  "fcq_body h env uuid gotCtlC deliveries opt =
     (case run env (fcq_setup h env uuid opt) of
        (as, Some l) \<Rightarrow> Some (as @ fcq_cleanup env l)
      | (as, None) \<Rightarrow>
          (case publish_loop env gotCtlC deliveries (usingDurable opt) 0 0 fcq_initial [] of
             None \<Rightarrow> None
           | Some (l, tr) \<Rightarrow> Some (as @ tr @ fcq_cleanup env l)))"

text \<open>The options structure after \<^verbatim>\<open>common_initCommandOptions\<close> in \<^verbatim>\<open>main\<close>.\<close>

definition fcq_commandOpts :: "common_h \<Rightarrow> solClient_h \<Rightarrow> commonOptions \<Rightarrow> commonOptions" where
  "fcq_commandOpts h sdk stack =
     common_initCommandOptions sdk stack (PARAM_MASK h USER_PARAM)
       (PARAM_MASK h HOST_PARAM OR PARAM_MASK h PASS_PARAM OR PARAM_MASK h DURABLE
        OR PARAM_MASK h LOG_LEVEL OR PARAM_MASK h USE_GSS OR PARAM_MASK h ZIP_LEVEL)"

text \<open>
  \<^verbatim>\<open>main\<close>: \<open>stack\<close> is the content of the options structure before it is initialised,
  \<open>argv0\<close> the program name and \<open>opts\<close> what \<^verbatim>\<open>getopt_long\<close> returns. The result is the
  exit code of the process with the trace; \<open>None\<close> when the process never exits.
\<close>

definition flowControlQueue_main ::
  "common_h \<Rightarrow> solClient_h \<Rightarrow> libc \<Rightarrow> env \<Rightarrow> string \<Rightarrow> (nat \<Rightarrow> bool) \<Rightarrow> (nat \<Rightarrow> delivery list)
     \<Rightarrow> commonOptions \<Rightarrow> string \<Rightarrow> (char \<times> string) list
     \<Rightarrow> (c_error + int \<times> action list) option" where
  "flowControlQueue_main h sdk lc env uuid gotCtlC deliveries stack argv0 opts =
     (let banner =
            [Printf (''\<newline>flowControlQueue.c (Copyright 2007-2018 Solace Corporation. ''
                     @ ''All rights reserved.)\<newline>'') [],
             InitSigHandler]
      in case common_parseCommandOptions h sdk lc argv0 opts (fcq_commandOpts h sdk stack)
                None of
           Inl e \<Rightarrow> Some (Inl e)
         | Inr (rc, opt, out) \<Rightarrow>
             if rc = 0 then Some (Inr (1, banner @ out))
             else (case fcq_body h env uuid gotCtlC deliveries opt of
                     None \<Rightarrow> None
                   | Some tr \<Rightarrow> Some (Inr (0, banner @ out @ tr))))"

section \<open>messageReplay.c\<close>

subsection \<open>messageReceiveCallback\<close>

text \<open>
  The state is the global counter \<^verbatim>\<open>msgReceived_s\<close>. The three arguments are what
  \<^verbatim>\<open>solClient_msg_dump\<close>, \<^verbatim>\<open>solClient_msg_getSmfPtr\<close> and \<^verbatim>\<open>solClient_session_sendSmf\<close>
  return for this message. In the last two error branches the source passes \<^verbatim>\<open>rc\<close>,
  which still holds the result of the dump.
\<close>

definition messageReceiveCallback ::
  "returnCode \<Rightarrow> returnCode \<Rightarrow> returnCode \<Rightarrow> int \<Rightarrow> int \<times> action list" where
  "messageReceiveCallback rc_dump rc_getSmfPtr rc_sendSmf msgReceived_s =
     (let n = int32 (msgReceived_s + 1);
          received = [Printf ''Received message number %d\<newline>'' [AInt n], Sdk solClient_msg_dump []]
      in if rc_dump \<noteq> SOLCLIENT_OK
         then (n, received @ common_handleError rc_dump ''solClient_msg_dump()'')
         else if rc_getSmfPtr \<noteq> SOLCLIENT_OK
         then (n, received @ [Printf ''\<newline>'' [], Sdk solClient_msg_getSmfPtr []]
                  @ common_handleError rc_dump ''Unable to extract SMF from received message'')
         else if rc_sendSmf \<noteq> SOLCLIENT_OK
         then (n, received @ [Printf ''\<newline>'' [], Sdk solClient_msg_getSmfPtr [], Sdk solClient_session_sendSmf []]
                  @ common_handleError rc_dump ''Unable to send SMF from received message'')
         else (n, received @ [Printf ''\<newline>'' [], Sdk solClient_msg_getSmfPtr [], Sdk solClient_session_sendSmf []]))"

text \<open>The counter after a sequence of received messages, starting from its initial 0.\<close>

fun msgReceived_after :: "(returnCode \<times> returnCode \<times> returnCode) list \<Rightarrow> int \<Rightarrow> int" where
  "msgReceived_after [] n = n"
| "msgReceived_after ((rc_dump, rc_getSmfPtr, rc_sendSmf) # ms) n =
     msgReceived_after ms (fst (messageReceiveCallback rc_dump rc_getSmfPtr rc_sendSmf n))"

subsection \<open>The wait loop of main\<close>

text \<open>
  \<^verbatim>\<open>while ( msgReceived_s < 100 );\<close> The counter is volatile and written by the
  callback on the SDK's thread: \<open>reads i\<close> is the value the \<open>i\<close>-th evaluation of the loop
  condition reads. The loop has no body, so the model does nothing between two reads.
  The result is the index of the read that ends the loop, \<open>None\<close> when the loop runs for
  ever.
\<close>

partial_function (option) wait_for_messages :: "(nat \<Rightarrow> int) \<Rightarrow> nat \<Rightarrow> nat option" where
  "wait_for_messages reads i =
     (if reads i < 100 then wait_for_messages reads (Suc i) else Some i)"

section \<open>messageTTLAndDeadMessageQueue.c\<close>

subsection \<open>publishMessageWithTTL\<close>

text \<open>
  \<open>k\<close> numbers the calls of the function in \<^verbatim>\<open>main\<close>. A failed allocation returns at
  once (label \<open>True\<close>); any other failure jumps to \<^verbatim>\<open>freeMessage\<close> (label \<open>False\<close>).
\<close>

definition publishMessageWithTTL :: "common_h \<Rightarrow> env \<Rightarrow> nat \<Rightarrow> int \<Rightarrow> bool \<Rightarrow> action list" where
  "publishMessageWithTTL h env k ttl dmqe =
     Log SOLCLIENT_LOG_DEBUG ''About to publish\<newline>'' []
     # (case run env
               [Call solClient_msg_alloc k [] (handle ''solClient_msg_alloc()'') True,
                Call solClient_msg_setDeliveryMode k [Mode SOLCLIENT_DELIVERY_MODE_NONPERSISTENT]
                  (handle ''solClient_msg_setDeliveryMode()'') False,
                Call solClient_msg_setDestination k [CStr (COMMON_MY_SAMPLE_TOPIC h)]
                  (handle ''solClient_msg_setDestination()'') False,
                Call solClient_msg_setTimeToLive k [Num ttl]
                  (handle ''solClient_msg_setTimeToLive()'') False,
                Call solClient_msg_setDMQEligible k [Flag dmqe]
                  (handle ''solClient_msg_setDMQEligible()'') False,
                Call solClient_session_sendMsg k [] (handle ''solClient_session_sendMsg()'')
                  False] of
          (as, Some True) \<Rightarrow> as
        | (as, _) \<Rightarrow> as @ call_and_report env solClient_msg_free k [] ''solClient_msg_free()'')"

subsection \<open>main\<close>

text \<open>
  The two counters are written by the Flow callbacks on the SDK's thread: what
  \<^verbatim>\<open>main\<close> reads is given by \<open>reads\<close>, one sequence of values for each place that reads
  a counter (the two polling loops read theirs once for each evaluation of the loop
  condition).
\<close>

datatype counter_read =
    Flow_poll_first | Flow_check_first | Dmq_check_first
  | Dmq_check_expired | Flow_poll_restart | Flow_check_restart

text \<open>
  \<^verbatim>\<open>i = 0; while ( ( flowRxMsgCounter != expected ) && ( i < 8 ) ) { sleepInUs ( 250 ); i++; }\<close>
\<close>

function poll :: "(nat \<Rightarrow> int) \<Rightarrow> int \<Rightarrow> nat \<Rightarrow> action list" where
  "poll counter expected i =
     (if counter i \<noteq> expected \<and> i < 8 then SleepInUs 250 # poll counter expected (Suc i)
      else [])"
  by pat_completeness auto
termination
  by (relation "measure (\<lambda>(counter, expected, i). 8 - i)") auto

text \<open>
  The cleanup labels; \<open>SessionConnected flow dmqFlow\<close> records whether \<^verbatim>\<open>flow_p\<close> and
  \<^verbatim>\<open>dmqFlow_p\<close> are set when the jump is taken (each is set by its successful
  \<^verbatim>\<open>solClient_session_createFlow\<close>).
\<close>

datatype ttl_label = SessionConnected bool bool | Cleanup | NotInitialized

definition ttl_flowProps :: "string \<Rightarrow> prop_str list" where
  "ttl_flowProps queueName =
     [Macro SOLCLIENT_FLOW_PROP_BIND_BLOCKING, Macro SOLCLIENT_PROP_ENABLE_VAL,
      Macro SOLCLIENT_FLOW_PROP_BIND_ENTITY_ID, Macro SOLCLIENT_FLOW_PROP_BIND_ENTITY_QUEUE,
      Macro SOLCLIENT_FLOW_PROP_BIND_NAME, Str queueName]"

definition ttl_deleteQueue :: "env \<Rightarrow> nat \<Rightarrow> string \<Rightarrow> action list" where
  "ttl_deleteQueue env k queueName =
     (case common_deleteQueue (env solClient_session_endpointDeprovision k) queueName of
        (rc, as) \<Rightarrow>
          as @ (if rc \<noteq> SOLCLIENT_OK then common_handleError rc ''common_deleteQueue()'' else []))"

definition ttl_cleanup :: "common_h \<Rightarrow> env \<Rightarrow> ttl_label \<Rightarrow> action list" where
  "ttl_cleanup h env l =
     (case l of
        NotInitialized \<Rightarrow> []
      | Cleanup \<Rightarrow> call_and_report env solClient_cleanup 0 [] ''solClient_cleanup()''
      | SessionConnected flow dmqFlow \<Rightarrow>
          (if flow
           then call_and_report env solClient_flow_destroy 0 [] ''solClient_flow_destroy()''
           else [])
          @ (if dmqFlow
             then call_and_report env solClient_flow_destroy 1 [] ''solClient_flow_destroy()''
             else [])
          @ ttl_deleteQueue env 0 (COMMON_TESTQ h)
          @ ttl_deleteQueue env 1 (COMMON_DMQ_NAME h)
          @ call_and_report env solClient_session_disconnect 0 []
              ''solClient_session_disconnect()''
          @ call_and_report env solClient_cleanup 0 [] ''solClient_cleanup()'')"

text \<open>The five messages of one round: three without TTL, two with a TTL of 3000 ms.\<close>

definition ttl_publish_five :: "common_h \<Rightarrow> env \<Rightarrow> nat \<Rightarrow> bool \<Rightarrow> action list" where
  "ttl_publish_five h env k first_round =
     publishMessageWithTTL h env k 0 False
     @ publishMessageWithTTL h env (k + 1) 0 False
     @ publishMessageWithTTL h env (k + 2) 0 False
     @ (if first_round
        then [Printf ''Publshing message with TTL=3000 ms and DMQ Eligible=FALSE\<newline>'' []]
        else [])
     @ publishMessageWithTTL h env (k + 3) 3000 False
     @ (if first_round
        then [Printf ''Publshing message with TTL=3000 ms and DMQ Eligible=TRUE\<newline>'' []]
        else [])
     @ publishMessageWithTTL h env (k + 4) 3000 True"

definition ttl_success :: action where
  "ttl_success =
     Printf (''Three messages with no TTL received and one message received on ''
             @ ''Dead Message Queue as expected\<newline>'') []"

text \<open>
  \<^verbatim>\<open>main\<close> after the options are parsed, in three parts: up to the connected Session
  (\<open>ttl_connect\<close>), the scenario up to the last test (\<open>ttl_steps\<close>), and the final message.
  \<open>capable\<close> is what \<^verbatim>\<open>solClient_session_isCapable\<close> returns.
\<close>

definition ttl_connect :: "env \<Rightarrow> commonOptions \<Rightarrow> ttl_label stmt list" where
  "ttl_connect env opt =
     (let session = common_createAndConnectSession (env solClient_session_create 0)
                      (env solClient_session_connect 0) opt
      in [Call solClient_initialize 0 [] (handle ''solClient_initialize()'') NotInitialized,
          Do (common_printCCSMPversion env
              @ [Sdk solClient_log_setFilterLevel [Num (logLevel opt)],
                 Log SOLCLIENT_LOG_INFO ''Creating solClient context'' []]),
          Call solClient_context_create 0 [] (handle ''solClient_context_create()'') Cleanup,
          Do (Log SOLCLIENT_LOG_INFO ''Creating solClient sessions.'' [] # snd session),
          Check (fst session \<noteq> SOLCLIENT_OK)
            (handle ''common_createAndConnectSession()'' (fst session)) Cleanup])"

definition ttl_steps ::
  "common_h \<Rightarrow> env \<Rightarrow> bool \<Rightarrow> (counter_read \<Rightarrow> nat \<Rightarrow> int) \<Rightarrow> ttl_label stmt list" where
  "ttl_steps h env capable reads =
     (let queue = common_createQueue h (env solClient_session_endpointProvision 0)
                    (COMMON_TESTQ h);
          dmq = common_createQueue h (env solClient_session_endpointProvision 1)
                  (COMMON_DMQ_NAME h)
      in [Do [Sdk solClient_session_isCapable []],
          Check (\<not> capable)
            [Log SOLCLIENT_LOG_ERROR ''Time to live is not supported by appliance.'' []]
            (SessionConnected False False),
          Do (Log SOLCLIENT_LOG_INFO ''Creating Queue %s on appliance.'' [AStr (COMMON_TESTQ h)]
              # snd queue),
          Check (fst queue \<noteq> SOLCLIENT_OK) (handle ''common_createQueue()'' (fst queue))
            (SessionConnected False False),
          Do (Log SOLCLIENT_LOG_INFO ''Creating Queue %s on appliance.''
                [AStr (COMMON_DMQ_NAME h)]
              # snd dmq),
          Check (fst dmq \<noteq> SOLCLIENT_OK) (handle ''common_createQueue()'' (fst dmq))
            (SessionConnected False False),
          Do [Log SOLCLIENT_LOG_INFO ''Adding subscription %s to queue %s through Session.''
                [AStr (COMMON_MY_SAMPLE_TOPIC h), AStr (COMMON_TESTQ h)]],
          Call solClient_session_endpointTopicSubscribe 0
            [Props [Macro SOLCLIENT_ENDPOINT_PROP_ID, Macro SOLCLIENT_ENDPOINT_PROP_QUEUE,
                    Macro SOLCLIENT_ENDPOINT_PROP_NAME, Str (COMMON_TESTQ h)],
             CStr (COMMON_MY_SAMPLE_TOPIC h)]
            (handle ''solClient_session_endpointTopicSubscribe()'')
            (SessionConnected False False),
          Do (Printf ''Publishing three messages without TTL and DMQ\<newline>'' []
              # ttl_publish_five h env 0 True
              @ [Log SOLCLIENT_LOG_INFO ''Bind to queue %s.'' [AStr (COMMON_TESTQ h)]]),
          Call solClient_session_createFlow 0 [Props (ttl_flowProps (COMMON_TESTQ h))]
            (handle ''solClient_session_createFlow() did not return SOLCLIENT_OK'')
            (SessionConnected False False),
          Do [Log SOLCLIENT_LOG_INFO ''Bind to queue %s.'' [AStr (COMMON_DMQ_NAME h)]],
          Call solClient_session_createFlow 1 [Props (ttl_flowProps (COMMON_DMQ_NAME h))]
            (handle ''solClient_session_createFlow() did not return SOLCLIENT_OK'')
            (SessionConnected True False),
          Do (poll (reads Flow_poll_first) 5 0),
          Check (reads Flow_check_first 0 \<noteq> 5)
            [Log SOLCLIENT_LOG_ERROR ''%d messages received on flow, 5 messages expected''
               [AInt (reads Flow_check_first 0)]]
            (SessionConnected True True),
          Check (reads Dmq_check_first 0 \<noteq> 0)
            [Log SOLCLIENT_LOG_ERROR ''%d messages received on DMQ, no messages expected''
               [AInt (reads Dmq_check_first 0)]]
            (SessionConnected True True),
          Do [Printf ''All sent messages received\<newline>'' []],
          Call solClient_flow_stop 0 [] (handle ''solClient_flow_stop()'')
            (SessionConnected True True),
          Do (Printf ''Resend 5 messages\<newline>'' []
              # ttl_publish_five h env 5 False
              @ [Printf ''Wait five seconds to allow messages to expire\<newline>'' [],
                 SleepInSec 5]),
          Check (reads Dmq_check_expired 0 \<noteq> 1)
            [Log SOLCLIENT_LOG_ERROR ''%d messages received on DMQ, 1 messages expected''
               [AInt (reads Dmq_check_expired 0)]]
            (SessionConnected True True),
          Call solClient_flow_start 0 [] (handle ''solClient_flow_start()'')
            (SessionConnected True True),
          Do (poll (reads Flow_poll_restart) 3 0),
          Check (reads Flow_check_restart 0 \<noteq> 3)
            [Log SOLCLIENT_LOG_ERROR ''%d messages received on flow, 3 messages expected''
               [AInt (reads Flow_check_restart 0)]]
            (SessionConnected True True)])"

definition ttl_body ::
  "common_h \<Rightarrow> env \<Rightarrow> bool \<Rightarrow> (counter_read \<Rightarrow> nat \<Rightarrow> int) \<Rightarrow> commonOptions \<Rightarrow> ttl_label stmt list"
  where
  "ttl_body h env capable reads opt =
     ttl_connect env opt @ ttl_steps h env capable reads @ [Do [ttl_success]]"

definition ttl_commandOpts :: "common_h \<Rightarrow> solClient_h \<Rightarrow> commonOptions \<Rightarrow> commonOptions" where
  "ttl_commandOpts h sdk stack =
     common_initCommandOptions sdk stack (PARAM_MASK h USER_PARAM)
       (PARAM_MASK h HOST_PARAM OR PARAM_MASK h PASS_PARAM OR PARAM_MASK h LOG_LEVEL
        OR PARAM_MASK h USE_GSS OR PARAM_MASK h ZIP_LEVEL)"

text \<open>
  \<^verbatim>\<open>main\<close>: the exit code of the process and the trace. Falling through the last
  statement reaches \<^verbatim>\<open>sessionConnected\<close> with both Flows set.
\<close>

definition messageTTLAndDeadMessageQueue_main ::
  "common_h \<Rightarrow> solClient_h \<Rightarrow> libc \<Rightarrow> env \<Rightarrow> bool \<Rightarrow> (counter_read \<Rightarrow> nat \<Rightarrow> int)
     \<Rightarrow> commonOptions \<Rightarrow> string \<Rightarrow> (char \<times> string) list \<Rightarrow> c_error + int \<times> action list" where
  "messageTTLAndDeadMessageQueue_main h sdk lc env capable reads stack argv0 opts =
     (let banner =
            [Printf (''\<newline>messageTTLAndDeadMessageQueue.c (Copyright 2010-2018 Solace ''
                     @ ''Corporation. All rights reserved.)\<newline>'') [],
             InitSigHandler]
      in case common_parseCommandOptions h sdk lc argv0 opts (ttl_commandOpts h sdk stack)
                None of
           Inl e \<Rightarrow> Inl e
         | Inr (rc, opt, out) \<Rightarrow>
             if rc = 0 then Inr (1, banner @ out)
             else (case run env (ttl_body h env capable reads opt) of
                     (as, r) \<Rightarrow>
                       Inr (0, banner @ out @ as
                               @ ttl_cleanup h env
                                   (case r of None \<Rightarrow> SessionConnected True True
                                    | Some l \<Rightarrow> l))))"

section \<open>HelloWorldWebPub.c\<close>

text \<open>
  \<^verbatim>\<open>main\<close> of the introductory publisher: \<open>argv\<close> is the argument vector, program name
  included. Every failure prints the return code and returns \<open>-1\<close> at once.
\<close>

definition hello_report :: "string \<Rightarrow> returnCode \<Rightarrow> action list" where
  "hello_report name rc =
     [Printf (name @ '': returnCode  %d (expect %d)\<newline>'')
        [AReturnCode rc, AReturnCode SOLCLIENT_OK]]"

definition helloWorldWebPub_usage :: string where
  "helloWorldWebPub_usage =
     ''Usage: HelloWorldWebPub <http://msg_backbone_ip[:port]> <vpn> <client-username> ''
     @ ''<topic> [web-transport-protocol]\<newline>''"

definition helloWorldWebPub_main :: "env \<Rightarrow> string list \<Rightarrow> int \<times> action list" where
  "helloWorldWebPub_main env argv =
     (if length argv < 5 then (- 1, [Printf helloWorldWebPub_usage []])
      else if take 4 (argv ! 1) \<noteq> ''http'' \<and> take 2 (argv ! 1) \<noteq> ''ws''
      then (- 1,
            [Printf ''%s: support HTTP or WS transport protocols only\<newline>'' [AStr (argv ! 1)],
             Printf ([CHR 0x09] @ '' '' @ helloWorldWebPub_usage) []])
      else (case run env
                   [Call solClient_initialize 0 [] (hello_report ''solClient_initialize'') (),
                    Do [Printf ''HelloWorldWebPub initializing...\<newline>'' []],
                    Call solClient_context_create 0 []
                      (hello_report ''solClient_context_create'') (),
                    Call solClient_session_create 0
                      [Props ([Macro SOLCLIENT_SESSION_PROP_HOST, Str (argv ! 1),
                               Macro SOLCLIENT_SESSION_PROP_VPN_NAME, Str (argv ! 2),
                               Macro SOLCLIENT_SESSION_PROP_USERNAME, Str (argv ! 3)]
                              @ (if length argv > 5
                                 then [Macro SOLCLIENT_SESSION_PROP_WEB_TRANSPORT_PROTOCOL_LIST,
                                       Str (argv ! 5)]
                                 else []))]
                      (hello_report ''solClient_session_create'') (),
                    Call solClient_session_connect 0 []
                      (hello_report ''solClient_session_connect'') (),
                    Do [Printf ''Connected.\<newline>'' []],
                    Call solClient_msg_alloc 0 [] (hello_report ''solClient_msg_alloc'') (),
                    Call solClient_msg_setDeliveryMode 0 [Mode SOLCLIENT_DELIVERY_MODE_DIRECT]
                      (hello_report ''solClient_msg_setDeliveryMode'') (),
                    Call solClient_msg_setDestination 0 [CStr (argv ! 4)]
                      (hello_report ''solClient_msg_setDestination'') (),
                    Call solClient_msg_setBinaryAttachment 0 [CStr ''Hello world!'']
                      (hello_report ''solClient_msg_setBinaryAttachment'') (),
                    Do [Printf ''About to send message '%s' to topic '%s'...\<newline>''
                          [AStr ''Hello world!'', AStr (argv ! 4)]],
                    Call solClient_session_sendMsg 0 []
                      (hello_report ''solClient_session_sendMsg'') (),
                    Do [Printf ''Message sent. Exiting.\<newline>'' []],
                    Call solClient_msg_free 0 [] (hello_report ''solClient_msg_free'') ()] of
              (as, Some u) \<Rightarrow> (- 1, as)
            | (as, None) \<Rightarrow> (0, as @ [Sdk solClient_cleanup []])))"

section \<open>Reading traces and command lines\<close>

text \<open>The SDK functions a trace calls, in order, the reset of the error info left out.\<close>

fun sdk_calls :: "action list \<Rightarrow> sdk_fn list" where
  "sdk_calls [] = []"
| "sdk_calls (Sdk f args # as) =
     (if f = solClient_resetLastErrorInfo then sdk_calls as else f # sdk_calls as)"
| "sdk_calls (a # as) = sdk_calls as"

text \<open>The labels a sequence of statements can jump to.\<close>

fun labels :: "'l stmt list \<Rightarrow> 'l list" where
  "labels [] = []"
| "labels (Call f k args report l # cs) = l # labels cs"
| "labels (Check failed report l # cs) = l # labels cs"
| "labels (Do acts # cs) = labels cs"

text \<open>What a trace prints with \<^verbatim>\<open>printf\<close>.\<close>

fun printfs :: "action list \<Rightarrow> action list" where
  "printfs [] = []"
| "printfs (Printf fmt args # as) = Printf fmt args # printfs as"
| "printfs (a # as) = printfs as"

text \<open>The tests of the \<open>Check\<close> statements of a sequence.\<close>

fun checks :: "'l stmt list \<Rightarrow> bool list" where
  "checks [] = []"
| "checks (Check failed report l # cs) = failed # checks cs"
| "checks (c # cs) = checks cs"

text \<open>
  The options that make \<open>common_parseCommandOptions\<close> return 0, in the words of the
  usage rules: a log level that is neither a number up to \<^verbatim>\<open>SOLCLIENT_LOG_DEBUG\<close> nor one
  of the six level names; a message count, message rate or window size that is not
  positive; an option character that is none of the known ones (\<^verbatim>\<open>getopt_long\<close> returns
  \<open>?\<close> for an unknown option and for a missing argument).
\<close>

definition rejects :: "solClient_h \<Rightarrow> libc \<Rightarrow> char \<times> string \<Rightarrow> bool" where
  "rejects sdk lc x =
     (case x of (c, optarg) \<Rightarrow>
        if c \<in> set ''acdgzRtup'' then False
        else if c = CHR ''l''
        then (fst (strtol0 lc optarg) > log_level_num sdk SOLCLIENT_LOG_DEBUG
              \<or> snd (strtol0 lc optarg) \<noteq> [])
             \<and> (\<forall>name \<in> set [''debug'', ''info'', ''notice'', ''warn'', ''error'', ''critical''].
                    strcasecmp lc optarg name \<noteq> 0)
        else if c \<in> set ''nrw'' then atoi lc optarg \<le> 0
        else True)"

section \<open>Sample constants and a model of the C library\<close>

text \<open>
  For running the model on a concrete command line: one choice of the constants of
  \<^verbatim>\<open>common.h\<close> and of the SDK header (the theorems hold for every choice), and the C
  library functions on the strings they are defined on. \<open>atoi_model\<close> and \<open>strtol0_model\<close>
  do not model overflow.
\<close>

fun param_bit :: "param \<Rightarrow> nat" where
  "param_bit HOST_PARAM = 0"
| "param_bit USER_PARAM = 1"
| "param_bit DEST_PARAM = 2"
| "param_bit PASS_PARAM = 3"
| "param_bit CACHE_PARAM = 4"
| "param_bit DURABLE = 5"
| "param_bit NUM_MSGS = 6"
| "param_bit MSG_RATE = 7"
| "param_bit WINDOW_SIZE = 8"
| "param_bit LOG_LEVEL = 9"
| "param_bit USE_GSS = 10"
| "param_bit ZIP_LEVEL = 11"
| "param_bit REPLAY_START = 12"

definition sample_common_h :: common_h where
  "sample_common_h =
     \<lparr>COMMON_DMQ_NAME = ''#DEAD_MSG_QUEUE'',
      COMMON_TESTQ = ''my_sample_queue'',
      COMMON_MY_SAMPLE_TOPIC = ''my/sample/topic'',
      PARAM_MASK = (\<lambda>p. 2 ^ param_bit p),
      PARAM_STRING = (\<lambda>p. []),
      sizeof_username = 8,
      sizeof_password = 8,
      sizeof_vpn = 8,
      sizeof_targetHost = 8,
      sizeof_cacheName = 8,
      sizeof_replayStartLocation = 8,
      sizeof_destinationName = 8\<rparr>"

fun sample_log_level_num :: "log_level \<Rightarrow> int" where
  "sample_log_level_num SOLCLIENT_LOG_EMERGENCY = 0"
| "sample_log_level_num SOLCLIENT_LOG_ALERT = 1"
| "sample_log_level_num SOLCLIENT_LOG_CRITICAL = 2"
| "sample_log_level_num SOLCLIENT_LOG_ERROR = 3"
| "sample_log_level_num SOLCLIENT_LOG_WARNING = 4"
| "sample_log_level_num SOLCLIENT_LOG_NOTICE = 5"
| "sample_log_level_num SOLCLIENT_LOG_INFO = 6"
| "sample_log_level_num SOLCLIENT_LOG_DEBUG = 7"

definition sample_solClient_h :: solClient_h where
  "sample_solClient_h = \<lparr>log_level_num = sample_log_level_num, SOLCLIENT_LOG_DEFAULT_FILTER = 5\<rparr>"

definition isspace :: "char \<Rightarrow> bool" where
  "isspace c = (c \<in> set [CHR '' '', CHR 0x09, CHR 0x0A, CHR 0x0B, CHR 0x0C, CHR 0x0D])"

definition isdigit :: "char \<Rightarrow> bool" where
  "isdigit c = ((48::nat) \<le> of_char c \<and> of_char c \<le> (57::nat))"

definition digit_value :: "char \<Rightarrow> int" where
  "digit_value c = of_char c - of_char CHR ''0''"

definition decimal_value :: "string \<Rightarrow> int" where
  "decimal_value s = foldl (\<lambda>a c. 10 * a + digit_value c) 0 (takeWhile isdigit s)"

definition atoi_model :: "string \<Rightarrow> int" where
  "atoi_model s =
     (case dropWhile isspace s of
        [] \<Rightarrow> 0
      | c # r \<Rightarrow> if c = CHR ''-'' then - decimal_value r
                 else if c = CHR ''+'' then decimal_value r
                 else decimal_value (c # r))"

text \<open>
  \<^verbatim>\<open>strtol\<close> with base 0, on decimal input: the model is meant for strings whose digits
  do not start with \<open>0\<close> (which would select octal or hexadecimal).
\<close>

definition strtol0_model :: "string \<Rightarrow> int \<times> string" where
  "strtol0_model s =
     (let t = dropWhile isspace s;
          neg = (t \<noteq> [] \<and> hd t = CHR ''-'');
          u = (if t \<noteq> [] \<and> (hd t = CHR ''-'' \<or> hd t = CHR ''+'') then tl t else t)
      in if takeWhile isdigit u = [] then (0, s)
         else ((if neg then - decimal_value u else decimal_value u), dropWhile isdigit u))"

definition tolower :: "char \<Rightarrow> char" where
  "tolower c =
     (if (65::nat) \<le> of_char c \<and> of_char c \<le> (90::nat)
      then char_of (of_char c + (32::nat)) else c)"

fun strcasecmp_model :: "string \<Rightarrow> string \<Rightarrow> int" where
  "strcasecmp_model [] [] = 0"
| "strcasecmp_model [] (b # bs) = - of_char (tolower b)"
| "strcasecmp_model (a # as) [] = of_char (tolower a)"
| "strcasecmp_model (a # as) (b # bs) =
     (if tolower a = tolower b then strcasecmp_model as bs
      else of_char (tolower a) - of_char (tolower b))"

definition libc_model :: libc where
  "libc_model = \<lparr>atoi = atoi_model, strtol0 = strtol0_model, strcasecmp = strcasecmp_model\<rparr>"

text \<open>The environment in which every SDK call succeeds.\<close>

definition all_ok :: env where
  "all_ok f k = SOLCLIENT_OK"

text \<open>The environment in which only \<^verbatim>\<open>solClient_session_connect\<close> fails.\<close>

definition connect_fails :: env where
  "connect_fails f k = (if f = solClient_session_connect then SOLCLIENT_FAIL else SOLCLIENT_OK)"

text \<open>An options structure before initialisation: every array filled with \<open>X\<close>.\<close>

definition uninitialised_options :: commonOptions where
  "uninitialised_options =
     \<lparr>username = ''XXXXXXXX'', password = ''XXXXXXXX'',
      vpn = ''XXXXXXXX'', targetHost = ''XXXXXXXX'',
      cacheName = ''XXXXXXXX'', replayStartLocation = ''XXXXXXXX'',
      usingTopic = False, usingAD = True, destinationName = ''XXXXXXXX'',
      numMsgsToSend = 77, msgRate = 77, gdWindow = 77, logLevel = 77, usingDurable = True,
      enableCompression = True, useGSS = True, requiredFields = 77, optionalFields = 77\<rparr>"

section \<open>Properties of the session and queue helpers\<close>

lemma int32_small: "- 2147483648 \<le> x \<Longrightarrow> x < 2147483648 \<Longrightarrow> int32 x = x"
  by (simp add: int32_def)

text \<open>
  The first action of \<open>common_createAndConnectSession\<close> is always the call of
  \<^verbatim>\<open>solClient_session_create\<close> with the properties array built from the options.
\<close>

lemma createAndConnectSession_first_action:
  "hd (snd (common_createAndConnectSession rc_create rc_connect commonOpts))
     = Sdk solClient_session_create [Props (sessionProps commonOpts)]"
  by (simp add: common_createAndConnectSession_def)

text \<open>
  Claim C9. Whatever the options are, the properties handed to
  \<^verbatim>\<open>solClient_session_create\<close> by \<open>common_createAndConnectSession\<close> disable the
  validation of the server certificate, set the connect retries and the reconnect retries
  to the string "3", and set the compression level to "9" when compression is enabled and
  to "0" otherwise; no other level occurs.
\<close>

theorem C9_session_properties_hard_coded:
  "hd (snd (common_createAndConnectSession rc_create rc_connect commonOpts))
     = Sdk solClient_session_create [Props (sessionProps commonOpts)]
   \<and> prop_value (sessionProps commonOpts) SOLCLIENT_SESSION_PROP_SSL_VALIDATE_CERTIFICATE
       = Some (Macro SOLCLIENT_PROP_DISABLE_VAL)
   \<and> prop_value (sessionProps commonOpts) SOLCLIENT_SESSION_PROP_CONNECT_RETRIES
       = Some (Str ''3'')
   \<and> prop_value (sessionProps commonOpts) SOLCLIENT_SESSION_PROP_RECONNECT_RETRIES
       = Some (Str ''3'')
   \<and> prop_value (sessionProps commonOpts) SOLCLIENT_SESSION_PROP_COMPRESSION_LEVEL
       = Some (Str (if enableCompression commonOpts then ''9'' else ''0''))
   \<and> prop_value (sessionProps commonOpts) SOLCLIENT_SESSION_PROP_COMPRESSION_LEVEL
       \<in> {Some (Str ''9''), Some (Str ''0'')}"
  by (simp add: common_createAndConnectSession_def prop_value_def sessionProps_def)
text \<open>
  Claim C10. \<open>common_createQueue\<close> provisions the queue with the delete permission and
  with the respects-message-TTL property enabled, except for the queue named
  \<^verbatim>\<open>COMMON_DMQ_NAME\<close>, for which the property is left out; the provisioning call carries
  the flag that ignores already-exists errors, and only the return code
  \<^verbatim>\<open>SOLCLIENT_FAIL\<close> is reported as a failure.
\<close>

theorem C10_createQueue_properties:
  "hd (snd (common_createQueue h rc_provision queueName_p))
     = Sdk solClient_session_endpointProvision
         [Props (createQueue_props h queueName_p),
          Flags [SOLCLIENT_PROVISION_FLAGS_WAITFORCONFIRM,
                 SOLCLIENT_PROVISION_FLAGS_IGNORE_EXIST_ERRORS]]
   \<and> prop_value (createQueue_props h queueName_p) SOLCLIENT_ENDPOINT_PROP_NAME
       = Some (Str queueName_p)
   \<and> prop_value (createQueue_props h queueName_p) SOLCLIENT_ENDPOINT_PROP_PERMISSION
       = Some (Macro SOLCLIENT_ENDPOINT_PERM_DELETE)
   \<and> prop_value (createQueue_props h queueName_p) SOLCLIENT_ENDPOINT_PROP_RESPECTS_MSG_TTL
       = (if queueName_p = COMMON_DMQ_NAME h then None
          else Some (Macro SOLCLIENT_PROP_ENABLE_VAL))
   \<and> fst (common_createQueue h rc_provision queueName_p)
       = (if rc_provision = SOLCLIENT_FAIL then SOLCLIENT_FAIL else SOLCLIENT_OK)"
  by (simp add: common_createQueue_def createQueue_props_def prop_value_def Let_def)

theorem C10_createQueue_properties_witness:
  "prop_value (createQueue_props sample_common_h ''#DEAD_MSG_QUEUE'')
       SOLCLIENT_ENDPOINT_PROP_RESPECTS_MSG_TTL = None
   \<and> prop_value (createQueue_props sample_common_h ''my_sample_queue'')
       SOLCLIENT_ENDPOINT_PROP_RESPECTS_MSG_TTL = Some (Macro SOLCLIENT_PROP_ENABLE_VAL)
   \<and> fst (common_createQueue sample_common_h SOLCLIENT_FAIL ''my_sample_queue'') = SOLCLIENT_FAIL"
  using C10_createQueue_properties [of sample_common_h SOLCLIENT_FAIL "''#DEAD_MSG_QUEUE''"]
    C10_createQueue_properties [of sample_common_h SOLCLIENT_FAIL "''my_sample_queue''"]
  by (simp add: sample_common_h_def)

section \<open>Properties of common_parseUsernameAndVpn\<close>

text \<open>
  Copying a run of characters without \<open>@\<close> that fits what is left of the array.
\<close>

lemma parse_loop_copy_user:
  "CHR ''@'' \<notin> set cs \<Longrightarrow> length cs \<le> remaining st \<Longrightarrow>
   dest_array st = OutUsername \<Longrightarrow> dest_off st + length cs \<le> length (outUsername st) \<Longrightarrow>
   parse_loop vlen cs st =
     Inr (st\<lparr>outUsername := take (dest_off st) (outUsername st) @ cs
                   @ drop (dest_off st + length cs) (outUsername st),
             dest_off := dest_off st + length cs,
             remaining := remaining st - length cs\<rparr>)"
proof (induction cs arbitrary: st)
  case Nil
  then show ?case by simp
next
  case (Cons c cs)
  let ?k = "dest_off st"
  let ?st1 = "st\<lparr>outUsername := (outUsername st)[?k := c]\<rparr>"
  let ?st2 = "?st1\<lparr>dest_off := ?k + 1, remaining := remaining st - 1\<rparr>"
  from Cons.prems have k: "?k < length (outUsername st)" and r: "remaining st \<noteq> 0"
    and c: "c \<noteq> CHR ''@''" by auto
  have s: "store st (int ?k) c = Inr ?st1"
    using k Cons.prems(3) by (simp add: store_def)
  have step: "parse_loop vlen (c # cs) st = parse_loop vlen cs ?st2"
    using c r s by simp
  have ih: "parse_loop vlen cs ?st2 =
     Inr (?st2\<lparr>outUsername := take (dest_off ?st2) (outUsername ?st2) @ cs
                   @ drop (dest_off ?st2 + length cs) (outUsername ?st2),
             dest_off := dest_off ?st2 + length cs,
             remaining := remaining ?st2 - length cs\<rparr>)"
    using Cons.prems by (intro Cons.IH) auto
  show ?case
    unfolding step ih using k
    by (simp add: take_Suc_conv_app_nth)
qed

lemma parse_loop_copy_vpn:
  "CHR ''@'' \<notin> set cs \<Longrightarrow> length cs \<le> remaining st \<Longrightarrow>
   dest_array st = OutVpn \<Longrightarrow> dest_off st + length cs \<le> length (outVpn st) \<Longrightarrow>
   parse_loop vlen cs st =
     Inr (st\<lparr>outVpn := take (dest_off st) (outVpn st) @ cs
                   @ drop (dest_off st + length cs) (outVpn st),
             dest_off := dest_off st + length cs,
             remaining := remaining st - length cs\<rparr>)"
proof (induction cs arbitrary: st)
  case Nil
  then show ?case by simp
next
  case (Cons c cs)
  let ?k = "dest_off st"
  let ?st1 = "st\<lparr>outVpn := (outVpn st)[?k := c]\<rparr>"
  let ?st2 = "?st1\<lparr>dest_off := ?k + 1, remaining := remaining st - 1\<rparr>"
  from Cons.prems have k: "?k < length (outVpn st)" and r: "remaining st \<noteq> 0"
    and c: "c \<noteq> CHR ''@''" by auto
  have s: "store st (int ?k) c = Inr ?st1"
    using k Cons.prems(3) by (simp add: store_def)
  have step: "parse_loop vlen (c # cs) st = parse_loop vlen cs ?st2"
    using c r s by simp
  have ih: "parse_loop vlen cs ?st2 =
     Inr (?st2\<lparr>outVpn := take (dest_off ?st2) (outVpn ?st2) @ cs
                   @ drop (dest_off ?st2 + length cs) (outVpn ?st2),
             dest_off := dest_off ?st2 + length cs,
             remaining := remaining ?st2 - length cs\<rparr>)"
    using Cons.prems by (intro Cons.IH) auto
  show ?case
    unfolding step ih using k
    by (simp add: take_Suc_conv_app_nth)
qed

lemma parse_loop_append:
  "parse_loop vlen (xs @ ys) st =
     (case parse_loop vlen xs st of Inl e \<Rightarrow> Inl e | Inr st' \<Rightarrow> parse_loop vlen ys st')"
  by (induction xs arbitrary: st) (auto split: sum.splits)

lemma c_str_terminated: "NUL \<notin> set s \<Longrightarrow> c_str (s @ NUL # rest) = s"
  by (induction s) (auto simp: c_str_def)

lemma takeWhile_no_NUL: "NUL \<notin> set s \<Longrightarrow> takeWhile (\<lambda>c. c \<noteq> NUL) s = s"
  by (induction s) auto

lemma parse_no_at:
  assumes "NUL \<notin> set u" "CHR ''@'' \<notin> set u" "length u < usernameLen" "length U = usernameLen"
  shows "common_parseUsernameAndVpn u U usernameLen V vpnLen
           = Inr (u @ NUL # drop (Suc (length u)) U, V)"
proof -
  let ?st0 = "\<lparr>outUsername = U, outVpn = V, dest_array = OutUsername,
              dest_off = 0, remaining = usernameLen\<rparr>"
  have "parse_loop vpnLen u ?st0 =
     Inr (?st0\<lparr>outUsername := take (dest_off ?st0) (outUsername ?st0) @ u
                   @ drop (dest_off ?st0 + length u) (outUsername ?st0),
             dest_off := dest_off ?st0 + length u,
             remaining := remaining ?st0 - length u\<rparr>)"
    using assms by (intro parse_loop_copy_user) auto
  then show ?thesis
    using assms
    by (simp add: common_parseUsernameAndVpn_def takeWhile_no_NUL store_def
        upd_conv_take_nth_drop)
qed

lemma parse_one_at:
  assumes "NUL \<notin> set u" "CHR ''@'' \<notin> set u" "length u < usernameLen" "length U = usernameLen"
    "NUL \<notin> set v" "CHR ''@'' \<notin> set v" "length v < vpnLen" "length V = vpnLen"
  shows "common_parseUsernameAndVpn (u @ CHR ''@'' # v) U usernameLen V vpnLen
           = Inr (u @ NUL # drop (Suc (length u)) U, v @ NUL # drop (Suc (length v)) V)"
proof -
  let ?st0 = "\<lparr>outUsername = U, outVpn = V, dest_array = OutUsername,
              dest_off = 0, remaining = usernameLen\<rparr>"
  let ?U' = "u @ NUL # drop (Suc (length u)) U"
  let ?st1 = "\<lparr>outUsername = ?U', outVpn = V, dest_array = OutVpn,
              dest_off = 0, remaining = vpnLen\<rparr>"
  have a: "parse_loop vpnLen u ?st0 =
     Inr (?st0\<lparr>outUsername := take (dest_off ?st0) (outUsername ?st0) @ u
                   @ drop (dest_off ?st0 + length u) (outUsername ?st0),
             dest_off := dest_off ?st0 + length u,
             remaining := remaining ?st0 - length u\<rparr>)"
    using assms by (intro parse_loop_copy_user) auto
  have b: "parse_loop vpnLen v ?st1 =
     Inr (?st1\<lparr>outVpn := take (dest_off ?st1) (outVpn ?st1) @ v
                   @ drop (dest_off ?st1 + length v) (outVpn ?st1),
             dest_off := dest_off ?st1 + length v,
             remaining := remaining ?st1 - length v\<rparr>)"
    using assms by (intro parse_loop_copy_vpn) auto
  have nn: "NUL \<noteq> CHR ''@''" by (simp add: NUL_def)
  have tw: "takeWhile (\<lambda>c. c \<noteq> NUL) (u @ CHR ''@'' # v) = u @ CHR ''@'' # v"
    using assms nn by (intro takeWhile_no_NUL) auto
  have c: "parse_loop vpnLen (u @ CHR ''@'' # v) ?st0 = parse_loop vpnLen v ?st1"
    using assms a by (simp add: parse_loop_append store_def upd_conv_take_nth_drop)
  show ?thesis
    unfolding common_parseUsernameAndVpn_def tw c b
    using assms by (simp add: store_def upd_conv_take_nth_drop)
qed

text \<open>
  Claim C5, as the code has it. For a user name \<open>u\<close> and a namespace \<open>v\<close> without \<open>@\<close>,
  each shorter than its array: given \<open>u\<close> alone, the user name array holds \<open>u\<close>,
  NUL-terminated, and the VPN array is left as it was (it is not written); given
  \<open>u@v\<close>, the user name array holds \<open>u\<close> and the VPN array holds \<open>v\<close>, both
  NUL-terminated. Parts that do not fit their array are not covered.
\<close>

theorem C5_parseUsernameAndVpn_amended:
  assumes "NUL \<notin> set u" "CHR ''@'' \<notin> set u" "length u < usernameLen" "length U = usernameLen"
    "NUL \<notin> set v" "CHR ''@'' \<notin> set v" "length v < vpnLen" "length V = vpnLen"
  shows "(\<exists>U'. common_parseUsernameAndVpn u U usernameLen V vpnLen = Inr (U', V)
            \<and> length U' = usernameLen \<and> nul_terminated U' \<and> c_str U' = u)
       \<and> (\<exists>U' V'. common_parseUsernameAndVpn (u @ CHR ''@'' # v) U usernameLen V vpnLen
                     = Inr (U', V')
            \<and> length U' = usernameLen \<and> nul_terminated U' \<and> c_str U' = u
            \<and> length V' = vpnLen \<and> nul_terminated V' \<and> c_str V' = v)"
  using assms
  by (simp add: parse_no_at parse_one_at c_str_terminated nul_terminated_def)

theorem C5_parseUsernameAndVpn_amended_witness:
  "common_parseUsernameAndVpn ''bob'' (NUL # ''XXXXXXX'') 8 (NUL # ''YYYYYYY'') 8
     = Inr (''bob'' @ NUL # ''XXXX'', NUL # ''YYYYYYY'')
   \<and> common_parseUsernameAndVpn ''bob@v1'' (NUL # ''XXXXXXX'') 8 (NUL # ''YYYYYYY'') 8
     = Inr (''bob'' @ NUL # ''XXXX'', ''v1'' @ NUL # ''YYYYY'')
   \<and> (\<exists>U'. common_parseUsernameAndVpn ''bob'' (NUL # ''XXXXXXX'') 8 (NUL # ''YYYYYYY'') 8
              = Inr (U', NUL # ''YYYYYYY'')
            \<and> length U' = 8 \<and> nul_terminated U' \<and> c_str U' = ''bob'')"
  using C5_parseUsernameAndVpn_amended
          [of "''bob''" 8 "NUL # ''XXXXXXX''" "''v1''" 8 "NUL # ''YYYYYYY''"]
  by (simp add: NUL_def common_parseUsernameAndVpn_def store_def)

text \<open>
  The claim as written fails on the command line \<^verbatim>\<open>--cu=a@b --cu=c\<close>: the second user
  name has no \<open>@\<close>, and the VPN is still \<open>b\<close> afterwards, not the empty string.
\<close>

theorem C5_vpn_not_emptied_counterexample:
  "map_sum id (\<lambda>(rc, opt, out). (rc, c_str (username opt), c_str (vpn opt)))
     (common_parseCommandOptions sample_common_h sample_solClient_h libc_model ''prog''
        [(CHR ''u'', ''a@b''), (CHR ''u'', ''c'')]
        (common_initCommandOptions sample_solClient_h uninitialised_options
           (PARAM_MASK sample_common_h USER_PARAM) 0)
        None)
   = Inr (1, ''c'', ''b'')"
  by code_simp

text \<open>
  A user name as long as its array (here 8 characters): the terminating NUL is written
  one past the end of the array.
\<close>

lemma parseUsernameAndVpn_overrun_example:
  "common_parseUsernameAndVpn ''abcdefgh'' (NUL # ''XXXXXXX'') 8 (NUL # ''YYYYYYY'') 8
     = Inl (Write_outside_array OutUsername 8)"
  by code_simp


section \<open>Properties of messageReplay.c\<close>

lemma wait_Some_reads:
  assumes "wait_for_messages reads i = Some j"
  shows "i \<le> j \<and> 100 \<le> reads j"
proof (rule wait_for_messages.raw_induct
         [where P = "\<lambda>reads i j. i \<le> j \<and> 100 \<le> reads j", OF _ assms])
  fix wait :: "(nat \<Rightarrow> int) \<Rightarrow> nat \<Rightarrow> nat option" and reads i j
  assume IH: "\<And>r i y. wait r i = Some y \<Longrightarrow> i \<le> y \<and> 100 \<le> r y"
    and step: "(if reads i < 100 then wait reads (Suc i) else Some i) = Some j"
  show "i \<le> j \<and> 100 \<le> reads j"
    using IH [of reads "Suc i" j] step by (auto split: if_splits)
qed

lemma wait_terminates: "100 \<le> reads (i + d) \<Longrightarrow> \<exists>j. wait_for_messages reads i = Some j"
proof (induction d arbitrary: i)
  case 0
  then show ?case by (subst wait_for_messages.simps) simp
next
  case (Suc d)
  then have "\<exists>j. wait_for_messages reads (Suc i) = Some j" by simp
  then show ?case by (subst wait_for_messages.simps) simp
qed

lemma callback_counter: "fst (messageReceiveCallback a b c n) = int32 (n + 1)"
  by (simp add: messageReceiveCallback_def Let_def)

lemma msgReceived_after_length:
  "0 \<le> n \<Longrightarrow> n + int (length ms) < 2147483648 \<Longrightarrow> msgReceived_after ms n = n + int (length ms)"
proof (induction ms arbitrary: n)
  case Nil
  then show ?case by simp
next
  case (Cons m ms)
  obtain a b c where m: "m = (a, b, c)" by (cases m)
  have "int32 (n + 1) = n + 1" using Cons.prems by (intro int32_small) auto
  then show ?case using Cons m by (simp add: callback_counter)
qed

text \<open>
  Claim C8. The wait loop of the messageReplay example ends if and only if some
  evaluation of its condition reads a counter value of at least 100; the callback adds
  one to the counter for each received message, whatever the SDK calls in it return; so
  when every value the loop reads is the count of fewer than 100 received messages, the
  loop never ends.
\<close>

theorem C8_busy_wait_terminates_iff_100_messages:
  "(wait_for_messages reads 0 \<noteq> None \<longleftrightarrow> (\<exists>i. 100 \<le> reads i))
   \<and> (length ms < 2147483648 \<longrightarrow> msgReceived_after ms 0 = int (length ms))
   \<and> ((\<forall>i. \<exists>ms. length ms < 100 \<and> reads i = msgReceived_after ms 0)
        \<longrightarrow> wait_for_messages reads 0 = None)"
proof (intro conjI impI)
  show iff: "wait_for_messages reads 0 \<noteq> None \<longleftrightarrow> (\<exists>i. 100 \<le> reads i)"
  proof
    assume "wait_for_messages reads 0 \<noteq> None"
    then obtain j where "wait_for_messages reads 0 = Some j" by auto
    then show "\<exists>i. 100 \<le> reads i" using wait_Some_reads by blast
  next
    assume "\<exists>i. 100 \<le> reads i"
    then obtain i where "100 \<le> reads (0 + i)" by auto
    then show "wait_for_messages reads 0 \<noteq> None" using wait_terminates by fastforce
  qed
  show "msgReceived_after ms 0 = int (length ms)" if "length ms < 2147483648"
    using that msgReceived_after_length [of 0 ms] by simp
  show "wait_for_messages reads 0 = None"
    if h: "\<forall>i. \<exists>ms. length ms < 100 \<and> reads i = msgReceived_after ms 0"
  proof -
    have "reads i < 100" for i
    proof -
      from h obtain ms where "length ms < 100" "reads i = msgReceived_after ms 0" by blast
      then show ?thesis using msgReceived_after_length [of 0 ms] by simp
    qed
    then have "\<not> (\<exists>i. 100 \<le> reads i)" by (simp add: not_le)
    then show ?thesis using iff by simp
  qed
qed


theorem C8_busy_wait_terminates_iff_100_messages_witness:
  "wait_for_messages (\<lambda>i. int i) 0 \<noteq> None
   \<and> msgReceived_after [(SOLCLIENT_OK, SOLCLIENT_OK, SOLCLIENT_OK),
                          (SOLCLIENT_FAIL, SOLCLIENT_OK, SOLCLIENT_OK)] 0 = 2
   \<and> wait_for_messages (\<lambda>i. 0) 0 = None"
proof -
  have a: "\<exists>i. 100 \<le> int i" by (rule exI [of _ 100]) simp
  have b: "\<forall>i::nat. \<exists>ms. length ms < 100 \<and> (0::int) = msgReceived_after ms 0"
    by (intro allI exI [of _ "[]"]) simp
  show ?thesis
    using a b
      C8_busy_wait_terminates_iff_100_messages
        [of "\<lambda>i. int i" "[(SOLCLIENT_OK, SOLCLIENT_OK, SOLCLIENT_OK),
                             (SOLCLIENT_FAIL, SOLCLIENT_OK, SOLCLIENT_OK)]"]
      C8_busy_wait_terminates_iff_100_messages [of "\<lambda>i. 0" "[]"]
    by simp
qed


section \<open>Properties of flowControlQueue.c\<close>





























end
